theory Spec2Isabelle
  imports Main
begin

section \<open>Delimited text: the writer used by the export stage and a reader for it\<close>

text \<open>
  \<^verbatim>\<open>main.py\<close> writes the export file with \<^verbatim>\<open>csv.writer(temp)\<close>, that is with the
  default ``excel'' dialect of the Python standard library: delimiter comma, quote
  character double quote, doubled quotes inside a quoted field, minimal quoting, record
  terminator carriage return and line feed. The temporary file is opened in text mode on a
  POSIX system, where a line feed is written as it is.
\<close>

abbreviation COMMA :: char where "COMMA \<equiv> CHR '',''"
abbreviation DQUOTE :: char where "DQUOTE \<equiv> CHR 0x22"
abbreviation CR :: char where "CR \<equiv> CHR 0x0D"
abbreviation LF :: char where "LF \<equiv> CHR 0x0A"

definition special :: "char \<Rightarrow> bool" where
  "special c = (c = COMMA \<or> c = DQUOTE \<or> c = CR \<or> c = LF)"

text \<open>Minimal quoting: a field is quoted when one of its characters is the delimiter, the
  quote character or a character of the record terminator.\<close>

definition needs_quote :: "string \<Rightarrow> bool" where
  "needs_quote s = list_ex special s"

fun double_quotes :: "string \<Rightarrow> string" where
  "double_quotes [] = []"
| "double_quotes (c # cs) = (if c = DQUOTE then [DQUOTE, DQUOTE] else [c]) @ double_quotes cs"

definition write_field :: "string \<Rightarrow> string" where
  "write_field s = (if needs_quote s then [DQUOTE] @ double_quotes s @ [DQUOTE] else s)"

fun join_fields :: "string list \<Rightarrow> string" where
  "join_fields [] = []"
| "join_fields [s] = write_field s"
| "join_fields (s # t # ss) = write_field s @ [COMMA] @ join_fields (t # ss)"

text \<open>\<^verbatim>\<open>csv_writer.writerow(fields)\<close>: the text appended to the file. A record of one empty
  field is written as a pair of quotes, so that it differs from an empty record.\<close>

definition writerow :: "string list \<Rightarrow> string" where
  "writerow fields = (if fields = [[]] then [DQUOTE, DQUOTE] else join_fields fields) @ [CR, LF]"

text \<open>
  The reader is the standard reader of the same dialect (\<^verbatim>\<open>csv.reader\<close> over a file opened
  with \<^verbatim>\<open>newline=''\<close>), as one automaton over the characters of the file. Its states are
  those of the library; \<open>EAT_CRNL\<close> is entered after a carriage return that ended a record,
  where a line feed that follows belongs to the same terminator. A blank line is an empty
  record. The arguments are the state, the fields of the record read so far and the
  characters of the field read so far.
\<close>

datatype reader_state =
  START_RECORD | START_FIELD | IN_FIELD | IN_QUOTED_FIELD | QUOTE_IN_QUOTED_FIELD | EAT_CRNL

fun parse :: "reader_state \<Rightarrow> string list \<Rightarrow> string \<Rightarrow> string \<Rightarrow> string list list" where
  "parse st fs f [] = (if st = START_RECORD \<or> st = EAT_CRNL then [] else [fs @ [f]])"
| "parse START_RECORD fs f (c # cs) =
     (if c = LF then [] # parse START_RECORD [] [] cs
      else if c = CR then [] # parse EAT_CRNL [] [] cs
      else if c = DQUOTE then parse IN_QUOTED_FIELD [] [] cs
      else if c = COMMA then parse START_FIELD [[]] [] cs
      else parse IN_FIELD [] [c] cs)"
| "parse EAT_CRNL fs f (c # cs) =
     (if c = LF then parse START_RECORD [] [] cs
      else if c = CR then [] # parse EAT_CRNL [] [] cs
      else if c = DQUOTE then parse IN_QUOTED_FIELD [] [] cs
      else if c = COMMA then parse START_FIELD [[]] [] cs
      else parse IN_FIELD [] [c] cs)"
| "parse START_FIELD fs f (c # cs) =
     (if c = LF then (fs @ [[]]) # parse START_RECORD [] [] cs
      else if c = CR then (fs @ [[]]) # parse EAT_CRNL [] [] cs
      else if c = DQUOTE then parse IN_QUOTED_FIELD fs [] cs
      else if c = COMMA then parse START_FIELD (fs @ [[]]) [] cs
      else parse IN_FIELD fs [c] cs)"
| "parse IN_FIELD fs f (c # cs) =
     (if c = LF then (fs @ [f]) # parse START_RECORD [] [] cs
      else if c = CR then (fs @ [f]) # parse EAT_CRNL [] [] cs
      else if c = COMMA then parse START_FIELD (fs @ [f]) [] cs
      else parse IN_FIELD fs (f @ [c]) cs)"
| "parse IN_QUOTED_FIELD fs f (c # cs) =
     (if c = DQUOTE then parse QUOTE_IN_QUOTED_FIELD fs f cs
      else parse IN_QUOTED_FIELD fs (f @ [c]) cs)"
| "parse QUOTE_IN_QUOTED_FIELD fs f (c # cs) =
     (if c = DQUOTE then parse IN_QUOTED_FIELD fs (f @ [DQUOTE]) cs
      else if c = COMMA then parse START_FIELD (fs @ [f]) [] cs
      else if c = LF then (fs @ [f]) # parse START_RECORD [] [] cs
      else if c = CR then (fs @ [f]) # parse EAT_CRNL [] [] cs
      else parse IN_FIELD fs (f @ [c]) cs)"

definition csv_reader :: "string \<Rightarrow> string list list" where
  "csv_reader content = parse START_RECORD [] [] content"

section \<open>Exceptions, the file system and the calls to other services\<close>

text \<open>
  A Python exception is its class and its message (\<^verbatim>\<open>str(e)\<close>). \<^verbatim>\<open>IOError\<close> is
  \<^verbatim>\<open>OSError\<close>, so \<^verbatim>\<open>except IOError\<close> catches \<^verbatim>\<open>OSError\<close> and its subclasses.
\<close>

datatype exn_class =
  ValueError | KeyError | OSError | FileNotFoundError | IsADirectoryError | FileExistsError
  | PermissionError | OtherException

datatype exn = Exn exn_class string

fun str_exn :: "exn \<Rightarrow> string" where
  "str_exn (Exn c m) = m"

fun is_IOError :: "exn \<Rightarrow> bool" where
  "is_IOError (Exn c m) =
     (c = OSError \<or> c = FileNotFoundError \<or> c = IsADirectoryError \<or> c = FileExistsError
      \<or> c = PermissionError)"

text \<open>The local file system: what a path names, a regular file with its content, a
  directory, or a symbolic link whose target does not exist. Every operation of one
  invocation on its temporary file uses the same path string, so paths are compared as
  strings.\<close>

datatype node = File string | Dir | DanglingLink

text \<open>The calls made to the warehouse, the relay endpoint, the secret store and the
  file-transfer server, in the order they are made. A call is recorded when it is made,
  whether it returns or raises.\<close>

datatype call =
    ClientQuery string
  | JobResult
  | RequestsPost string string string string string
  | AccessSecretVersion string
  | Transport string nat
  | TransportConnect string string
  | SFTPClientFromTransport
  | SftpChdir string
  | SftpPut string string
  | SftpClose
  | TransportClose

datatype level = ERROR | INFO

text \<open>\<open>unremovable\<close> gives, for an entry that the process may not remove (a file of
  another user in a directory with the sticky bit, an entry of a directory that it may not
  write), the exception of the attempt. \<open>access_denied\<close> holds of the paths under a
  directory that the process may not search.\<close>

record world =
  environ :: "string \<rightharpoonup> string"
  files :: "string \<rightharpoonup> node"
  unremovable :: "string \<rightharpoonup> exn"
  access_denied :: "string \<Rightarrow> bool"
  calls :: "call list"
  logged :: "(level \<times> string) list"

definition call :: "world \<Rightarrow> call \<Rightarrow> world" where
  "call w c = w\<lparr>calls := calls w @ [c]\<rparr>"

definition logging :: "world \<Rightarrow> level \<Rightarrow> string \<Rightarrow> world" where
  "logging w l m = w\<lparr>logged := logged w @ [(l, m)]\<rparr>"

subsection \<open>What the warehouse returns\<close>

text \<open>A field value is \<^verbatim>\<open>None\<close>, a string, or a value of another scalar type, which the
  writer turns into text with \<^verbatim>\<open>str\<close> and which is given here by that text.\<close>

datatype cell = Null | Text string | Scalar string

fun field_text :: "cell \<Rightarrow> string" where
  "field_text Null = []"
| "field_text (Text s) = s"
| "field_text (Scalar s) = s"

type_synonym row = "string \<rightharpoonup> cell"

text \<open>The result set: the column names of its schema, its rows in result order, and the
  exception that iterating over it raises after the last of these rows, if any.\<close>

record result_set =
  schema :: "string list"
  rows :: "row list"
  fetch_error :: "exn option"

record credentials =
  info :: string
  scopes :: "string list"
  subject :: "string option"

record bq_client =
  project :: string
  client_credentials :: credentials

record response =
  status_code :: int
  response_text :: string

subsection \<open>The services the code calls\<close>

text \<open>
  Each collaborator outside the repository is a parameter: what the call returns, or the
  exception it raises, for its arguments. The two \<^verbatim>\<open>close\<close> methods of the transfer
  library and the \<^verbatim>\<open>logging\<close> calls do not raise.
  \<^item> \<open>b64decode_utf8\<close>: \<^verbatim>\<open>base64.b64decode(k).decode('utf-8')\<close>;
  \<^item> \<open>load_key\<close>: the exception of \<^verbatim>\<open>json.loads\<close> or of
    \<^verbatim>\<open>Credentials.from_service_account_info\<close> on the decoded key, if any;
  \<^item> \<open>client_query\<close>, \<open>job_result\<close>: \<^verbatim>\<open>client.query(query)\<close> and \<^verbatim>\<open>query_job.result()\<close>;
  \<^item> \<open>gettempdir\<close>, \<open>random_names\<close>: the directory and the candidate names of
    \<^verbatim>\<open>tempfile\<close>;
  \<^item> \<open>requests_post\<close>: \<^verbatim>\<open>requests.post(url, files={'file': (name, content, mime)})\<close>;
  \<^item> \<open>format_exc\<close>: \<^verbatim>\<open>traceback.format_exc()\<close> while the exception is handled;
  \<^item> \<open>access_secret_version\<close>: the decoded payload of the named secret version;
  \<^item> \<open>transport_init\<close>, \<open>transport_connect\<close>, \<open>sftp_from_transport\<close>, \<open>sftp_chdir\<close>,
    \<open>sftp_put\<close>: the exception raised by the step of the transfer library, if any;
    \<open>sftp_put\<close> is given what the local path names;
  \<^item> \<open>open_error\<close>, \<open>write_error\<close>: the refusal of the operating system to open a path
    for writing (a missing parent directory, permissions) or to write to it, if any.
\<close>

record services =
  b64decode_utf8 :: "string \<Rightarrow> exn + string"
  load_key :: "string \<Rightarrow> exn option"
  client_query :: "bq_client \<Rightarrow> string \<Rightarrow> exn option"
  job_result :: "bq_client \<Rightarrow> string \<Rightarrow> exn + result_set"
  gettempdir :: string
  random_names :: "string list"
  requests_post :: "string \<Rightarrow> string \<Rightarrow> string \<Rightarrow> string \<Rightarrow> exn + response"
  format_exc :: "exn \<Rightarrow> string"
  access_secret_version :: "string \<Rightarrow> exn + string"
  transport_init :: "string \<Rightarrow> nat \<Rightarrow> exn option"
  transport_connect :: "string \<Rightarrow> string \<Rightarrow> exn option"
  sftp_from_transport :: "exn option"
  sftp_chdir :: "string \<Rightarrow> exn option"
  sftp_put :: "node option \<Rightarrow> string \<Rightarrow> exn option"
  open_error :: "string \<Rightarrow> exn option"
  write_error :: "string \<Rightarrow> exn option"

subsection \<open>Text of values and of exceptions\<close>

text \<open>\<^verbatim>\<open>str(n)\<close> for a natural number.\<close>

fun str_nat :: "nat \<Rightarrow> string" where
  "str_nat n =
     (if n < 10 then [char_of (48 + n)] else str_nat (n div 10) @ [char_of (48 + n mod 10)])"

declare str_nat.simps [simp del]

text \<open>\<^verbatim>\<open>repr(s)\<close> of a string, as it stands in the message of an \<^verbatim>\<open>OSError\<close> and of a
  \<^verbatim>\<open>KeyError\<close>: in single quotes, or in double quotes when the string holds a single quote
  and no double quote; a backslash, the enclosing quote, tab, line feed and carriage return
  are escaped, another control character is written in hexadecimal.\<close>

abbreviation SQUOTE :: char where "SQUOTE \<equiv> CHR 0x27"
abbreviation BACKSLASH :: char where "BACKSLASH \<equiv> CHR 0x5C"
abbreviation TAB :: char where "TAB \<equiv> CHR 0x09"

definition hex_digit :: "nat \<Rightarrow> char" where
  "hex_digit n = ''0123456789abcdef'' ! (n mod 16)"

definition repr_char :: "char \<Rightarrow> char \<Rightarrow> string" where
  "repr_char q c =
     (if c = BACKSLASH then [BACKSLASH, BACKSLASH]
      else if c = q then [BACKSLASH, q]
      else if c = TAB then [BACKSLASH, CHR ''t'']
      else if c = LF then [BACKSLASH, CHR ''n'']
      else if c = CR then [BACKSLASH, CHR ''r'']
      else if (of_char c :: nat) < 32 \<or> (of_char c :: nat) = 127
      then [BACKSLASH, CHR ''x'', hex_digit (of_char c div 16), hex_digit (of_char c mod 16)]
      else [c])"

definition repr :: "string \<Rightarrow> string" where
  "repr s =
     (let q = (if SQUOTE \<in> set s \<and> DQUOTE \<notin> set s then DQUOTE else SQUOTE)
      in [q] @ concat (map (repr_char q) s) @ [q])"

definition permission_denied :: "string \<Rightarrow> exn" where
  "permission_denied p = Exn PermissionError (''[Errno 13] Permission denied: '' @ repr p)"

definition is_a_directory :: "string \<Rightarrow> exn" where
  "is_a_directory p = Exn IsADirectoryError (''[Errno 21] Is a directory: '' @ repr p)"

definition no_such_file :: "string \<Rightarrow> exn" where
  "no_such_file p = Exn FileNotFoundError (''[Errno 2] No such file or directory: '' @ repr p)"

subsection \<open>Operations of the \<^verbatim>\<open>os\<close> module and of files\<close>

text \<open>
  Every operation on a path that the process may not reach (\<open>access_denied\<close>) is refused
  with \<^verbatim>\<open>PermissionError\<close>, and \<^verbatim>\<open>os.path.exists\<close>, which swallows the error of \<^verbatim>\<open>stat\<close>,
  answers \<^verbatim>\<open>False\<close> for it. \<^verbatim>\<open>os.path.exists\<close> follows symbolic links, so it answers
  \<^verbatim>\<open>False\<close> for a dangling one too.
\<close>

definition os_path_exists :: "world \<Rightarrow> string \<Rightarrow> bool" where
  "os_path_exists w p =
     (if access_denied w p then False
      else case files w p of
             Some (File c) \<Rightarrow> True
           | Some Dir \<Rightarrow> True
           | Some DanglingLink \<Rightarrow> False
           | None \<Rightarrow> False)"

text \<open>\<^verbatim>\<open>os.remove\<close> and \<^verbatim>\<open>os.unlink\<close> are one function. It removes a regular file or a
  symbolic link; it raises on a path that names nothing, on a directory, and on an entry
  that the process may not remove.\<close>

definition os_remove :: "world \<Rightarrow> string \<Rightarrow> exn + world" where
  "os_remove w p =
     (if access_denied w p then Inl (permission_denied p)
      else case files w p of
             None \<Rightarrow> Inl (no_such_file p)
           | Some Dir \<Rightarrow> Inl (is_a_directory p)
           | Some n \<Rightarrow>
               (case unremovable w p of
                  Some e \<Rightarrow> Inl e
                | None \<Rightarrow> Inr (w\<lparr>files := (files w)(p := None)\<rparr>)))"

text \<open>A file that the process creates is one that it may remove.\<close>

definition create :: "world \<Rightarrow> string \<Rightarrow> world" where
  "create w p = w\<lparr>files := (files w)(p \<mapsto> File []), unremovable := (unremovable w)(p := None)\<rparr>"

text \<open>\<^verbatim>\<open>open(p, "wb")\<close> creates the file, or truncates the file that the path names,
  directly or through a symbolic link.\<close>

definition open_wb :: "services \<Rightarrow> world \<Rightarrow> string \<Rightarrow> exn + world" where
  "open_wb sv w p =
     (if access_denied w p then Inl (permission_denied p)
      else case files w p of
             Some Dir \<Rightarrow> Inl (is_a_directory p)
           | Some n \<Rightarrow>
               (case open_error sv p of
                  Some e \<Rightarrow> Inl e
                | None \<Rightarrow> Inr (w\<lparr>files := (files w)(p \<mapsto> File [])\<rparr>))
           | None \<Rightarrow>
               (case open_error sv p of
                  Some e \<Rightarrow> Inl e
                | None \<Rightarrow> Inr (create w p)))"

definition file_write :: "services \<Rightarrow> world \<Rightarrow> string \<Rightarrow> string \<Rightarrow> (exn + unit) \<times> world" where
  "file_write sv w p b =
     (case write_error sv p of
        Some e \<Rightarrow> (Inl e, w)
      | None \<Rightarrow> (Inr (), w\<lparr>files := (files w)(p \<mapsto> File b)\<rparr>))"

definition basename :: "string \<Rightarrow> string" where
  "basename p = rev (takeWhile (\<lambda>c. c \<noteq> CHR ''/'') (rev p))"

section \<open>\<^verbatim>\<open>main.py\<close>: the export and relay entry point\<close>

definition SPREADSHEET_ID :: string where
  "SPREADSHEET_ID = ''1h9QM4_hxLYfpGIWMXXmMg0SjpdNfS_u5jIwGISzxLQs''"

definition CLOUD_RUN_URL :: string where
  "CLOUD_RUN_URL = ''https://ramp-sftp-uploader-546663743745.europe-west2.run.app/upload''"

definition DELEGATED_USER :: string where
  "DELEGATED_USER = ''serviceaccount@wondle.io''"

definition query :: string where
  "query = [LF] @ ''        SELECT * '' @ [LF]
     @ ''        FROM '' @ [CHR 0x60] @ ''wondle-reports-452716.wondle_scans.ramp_report_draft''
     @ [CHR 0x60] @ '' '' @ [LF] @ ''        ''"

definition key_not_set :: exn where
  "key_not_set = Exn ValueError ''SERVICE_ACCOUNT_KEY environment variable is not set''"

text \<open>Lines 20 to 54: the key from the environment, the delegated credentials, the client,
  the query and its result. The first network call is \<^verbatim>\<open>client.query\<close>.\<close>

definition run_query :: "services \<Rightarrow> world \<Rightarrow> (exn + result_set) \<times> world" where
  "run_query sv w =
     (case environ w ''SERVICE_ACCOUNT_KEY'' of
        None \<Rightarrow> (Inl key_not_set, w)
      | Some encoded_key \<Rightarrow>
          if encoded_key = [] then (Inl key_not_set, w)
          else
            (case b64decode_utf8 sv encoded_key of
               Inl e \<Rightarrow> (Inl e, w)
             | Inr key_json \<Rightarrow>
                 (case load_key sv key_json of
                    Some e \<Rightarrow> (Inl e, w)
                  | None \<Rightarrow>
                      let credentials =
                            \<lparr>info = key_json,
                             scopes = [''https://www.googleapis.com/auth/bigquery'',
                                       ''https://www.googleapis.com/auth/drive.readonly''],
                             subject = None\<rparr>;
                          delegated_credentials = credentials\<lparr>subject := Some DELEGATED_USER\<rparr>;
                          client = \<lparr>project = ''wondle-reports-452716'',
                                    client_credentials = delegated_credentials\<rparr>;
                          w1 = call w (ClientQuery query)
                      in (case client_query sv client query of
                            Some e \<Rightarrow> (Inl e, w1)
                          | None \<Rightarrow> (job_result sv client query, call w1 JobResult)))))"

text \<open>\<^verbatim>\<open>[row[column] for column in column_names]\<close>: a column the row does not have raises
  \<^verbatim>\<open>KeyError\<close>, whose text is the \<^verbatim>\<open>repr\<close> of its message.\<close>

fun row_getitems :: "string list \<Rightarrow> row \<Rightarrow> exn + cell list" where
  "row_getitems [] r = Inr []"
| "row_getitems (column # columns) r =
     (case r column of
        None \<Rightarrow> Inl (Exn KeyError (repr (''no row field '' @ repr column)))
      | Some v \<Rightarrow>
          (case row_getitems columns r of
             Inl e \<Rightarrow> Inl e
           | Inr vs \<Rightarrow> Inr (v # vs)))"

text \<open>The loop of lines 68 to 73 over the rows, then over the exception that ends the
  iteration, if any: the text written so far and the count of rows written. It returns
  the exception that stopped it, if any.\<close>

fun write_rows ::
  "string list \<Rightarrow> row list \<Rightarrow> exn option \<Rightarrow> string \<Rightarrow> nat \<Rightarrow> exn option \<times> string \<times> nat" where
  "write_rows column_names [] err written row_count = (err, written, row_count)"
| "write_rows column_names (r # rs) err written row_count =
     (case row_getitems column_names r of
        Inl e \<Rightarrow> (Some e, written, row_count)
      | Inr row_values \<Rightarrow>
          write_rows column_names rs err
            (written @ writerow (map field_text row_values)) (row_count + 1))"

text \<open>\<^verbatim>\<open>tempfile.NamedTemporaryFile(mode='w+', delete=False, suffix='.csv')\<close> creates an
  empty file under the first candidate name that names nothing, unless the operating
  system refuses.\<close>

definition temp_candidates :: "services \<Rightarrow> string list" where
  "temp_candidates sv = map (\<lambda>n. gettempdir sv @ ''/tmp'' @ n @ ''.csv'') (random_names sv)"

definition NamedTemporaryFile :: "services \<Rightarrow> world \<Rightarrow> exn + string \<times> world" where
  "NamedTemporaryFile sv w =
     (case find (\<lambda>p. files w p = None) (temp_candidates sv) of
        None \<Rightarrow> Inl (Exn FileExistsError ''[Errno 17] No usable temporary file name found'')
      | Some p \<Rightarrow>
          if access_denied w p then Inl (permission_denied p)
          else (case open_error sv p of
                  Some e \<Rightarrow> Inl e
                | None \<Rightarrow> Inr (p, create w p)))"

text \<open>Lines 56 to 76: the export file. Leaving the \<^verbatim>\<open>with\<close> block closes the file, with
  what was written, also when the block is left by an exception.\<close>

definition write_export :: "services \<Rightarrow> world \<Rightarrow> result_set \<Rightarrow> (exn + string \<times> nat) \<times> world" where
  "write_export sv w results =
     (let column_names = schema results in
      case NamedTemporaryFile sv w of
        Inl e \<Rightarrow> (Inl e, w)
      | Inr (temp_path, w1) \<Rightarrow>
          (case write_rows column_names (rows results) (fetch_error results)
                  (writerow column_names) 0 of
             (Some e, written, row_count) \<Rightarrow>
               (Inl e, w1\<lparr>files := (files w1)(temp_path \<mapsto> File written)\<rparr>)
           | (None, written, row_count) \<Rightarrow>
               (Inr (temp_path, row_count),
                w1\<lparr>files := (files w1)(temp_path \<mapsto> File written)\<rparr>)))"

definition open_rb :: "world \<Rightarrow> string \<Rightarrow> exn + string" where
  "open_rb w p =
     (if access_denied w p then Inl (permission_denied p)
      else case files w p of
             None \<Rightarrow> Inl (no_such_file p)
           | Some DanglingLink \<Rightarrow> Inl (no_such_file p)
           | Some Dir \<Rightarrow> Inl (is_a_directory p)
           | Some (File c) \<Rightarrow> Inr c)"

text \<open>Lines 78 to 91: the upload to the relay endpoint, the removal of the export file and
  the answer.\<close>

definition relay :: "services \<Rightarrow> world \<Rightarrow> string \<Rightarrow> nat \<Rightarrow> (exn + string \<times> int) \<times> world" where
  "relay sv w temp_path row_count =
     (case open_rb w temp_path of
        Inl e \<Rightarrow> (Inl e, w)
      | Inr csv_file \<Rightarrow>
          let w1 = call w (RequestsPost CLOUD_RUN_URL ''file'' (basename temp_path) csv_file
                             ''text/csv'')
          in (case requests_post sv CLOUD_RUN_URL (basename temp_path) csv_file ''text/csv'' of
                Inl e \<Rightarrow> (Inl e, w1)
              | Inr response \<Rightarrow>
                  (case os_remove w1 temp_path of
                     Inl e \<Rightarrow> (Inl e, w1)
                   | Inr w2 \<Rightarrow>
                       if status_code response = 200
                       then (Inr (''Successfully exported '' @ str_nat row_count
                                    @ '' rows and uploaded to RAMP Data Upload'', 200), w2)
                       else (Inr (''Error uploading to Cloud Run: '' @ response_text response,
                                  500), w2))))"

text \<open>The body of the \<^verbatim>\<open>try\<close> block.\<close>

definition export_body :: "services \<Rightarrow> world \<Rightarrow> (exn + string \<times> int) \<times> world" where
  "export_body sv w =
     (case run_query sv w of
        (Inl e, w1) \<Rightarrow> (Inl e, w1)
      | (Inr results, w1) \<Rightarrow>
          (case write_export sv w1 results of
             (Inl e, w2) \<Rightarrow> (Inl e, w2)
           | (Inr (temp_path, row_count), w2) \<Rightarrow> relay sv w2 temp_path row_count))"

type_synonym request = string

text \<open>The entry point: every exception of the body becomes a response with status 500.\<close>

definition export_and_upload :: "services \<Rightarrow> world \<Rightarrow> request \<Rightarrow> (string \<times> int) \<times> world" where
  "export_and_upload sv w request =
     (case export_body sv w of
        (Inr answer, w') \<Rightarrow> (answer, w')
      | (Inl e, w') \<Rightarrow>
          ((''Error: '' @ str_exn e @ [LF, LF] @ ''Details: '' @ format_exc sv e, 500), w'))"

section \<open>\<^verbatim>\<open>sftp_upload.py\<close>: the transfer entry point\<close>

text \<open>The name of a secret version in the secret store.\<close>

definition secret_name :: "string \<Rightarrow> string \<Rightarrow> string \<Rightarrow> string" where
  "secret_name project_id secret_id version_id =
     ''projects/'' @ project_id @ ''/secrets/'' @ secret_id @ ''/versions/'' @ version_id"

definition get_secret ::
  "services \<Rightarrow> world \<Rightarrow> string \<Rightarrow> string \<Rightarrow> string \<Rightarrow> (exn + string) \<times> world" where
  "get_secret sv w project_id secret_id version_id =
     (let name = secret_name project_id secret_id version_id
      in (access_secret_version sv name, call w (AccessSecretVersion name)))"

text \<open>The body of the \<^verbatim>\<open>try\<close> block of \<^verbatim>\<open>upload_to_sftp\<close>, lines 15 to 43, with the inner
  handler of lines 27 to 32 for an \<^verbatim>\<open>IOError\<close> of the directory change.\<close>

definition upload_body ::
  "services \<Rightarrow> world \<Rightarrow> string \<Rightarrow> string \<Rightarrow> string \<Rightarrow> (exn + bool) \<times> world" where
  "upload_body sv w local_file_path remote_filename project_id =
     (case get_secret sv w project_id ''SFTP_HOST'' ''latest'' of
        (Inl e, w1) \<Rightarrow> (Inl e, w1)
      | (Inr sftp_host, w1) \<Rightarrow>
     (case get_secret sv w1 project_id ''SFTP_USERNAME'' ''latest'' of
        (Inl e, w2) \<Rightarrow> (Inl e, w2)
      | (Inr sftp_username, w2) \<Rightarrow>
     (case get_secret sv w2 project_id ''SFTP_PASSWORD'' ''latest'' of
        (Inl e, w3) \<Rightarrow> (Inl e, w3)
      | (Inr sftp_password, w3) \<Rightarrow>
     (case get_secret sv w3 project_id ''SFTP_DIRECTORY'' ''latest'' of
        (Inl e, w4) \<Rightarrow> (Inl e, w4)
      | (Inr sftp_directory, w4) \<Rightarrow>
     (let w5 = call w4 (Transport sftp_host 22) in
      case transport_init sv sftp_host 22 of
        Some e \<Rightarrow> (Inl e, w5)
      | None \<Rightarrow>
     (let w6 = call w5 (TransportConnect sftp_username sftp_password) in
      case transport_connect sv sftp_username sftp_password of
        Some e \<Rightarrow> (Inl e, w6)
      | None \<Rightarrow>
     (let w7 = call w6 SFTPClientFromTransport in
      case sftp_from_transport sv of
        Some e \<Rightarrow> (Inl e, w7)
      | None \<Rightarrow>
     (let w8 = call w7 (SftpChdir sftp_directory) in
      case sftp_chdir sv sftp_directory of
        Some e \<Rightarrow>
          if is_IOError e
          then (Inr False,
                call (logging w8 ERROR
                        (''Directory '' @ sftp_directory @ '' not found or inaccessible''))
                  TransportClose)
          else (Inl e, w8)
      | None \<Rightarrow>
     (let remote_path = remote_filename;
          w9 = call w8 (SftpPut local_file_path remote_path) in
      case sftp_put sv (files w9 local_file_path) remote_path of
        Some e \<Rightarrow> (Inl e, w9)
      | None \<Rightarrow>
          (Inr True,
           logging (call (call w9 SftpClose) TransportClose) INFO
             (''Successfully uploaded '' @ local_file_path @ '' to '' @ sftp_directory @ ''/''
                @ remote_filename)))))))))))"

definition upload_to_sftp ::
  "services \<Rightarrow> world \<Rightarrow> string \<Rightarrow> string \<Rightarrow> string \<Rightarrow> bool \<times> world" where
  "upload_to_sftp sv w local_file_path remote_filename project_id =
     (case upload_body sv w local_file_path remote_filename project_id of
        (Inr success, w') \<Rightarrow> (success, w')
      | (Inl e, w') \<Rightarrow>
          (False, logging w' ERROR (''Error uploading file to SFTP: '' @ str_exn e)))"

text \<open>The payload: bytes, or a stream, given by what its \<^verbatim>\<open>read()\<close> returns or raises.\<close>

datatype payload = Bytes string | Stream "exn + string"

text \<open>Lines 54 to 59: the two branches that save the payload. The stream is read after the
  file is opened.\<close>

definition save_payload ::
  "services \<Rightarrow> world \<Rightarrow> string \<Rightarrow> payload \<Rightarrow> (exn + unit) \<times> world" where
  "save_payload sv w temp_path data =
     (case data of
        Bytes b \<Rightarrow>
          (case open_wb sv w temp_path of
             Inl e \<Rightarrow> (Inl e, w)
           | Inr w1 \<Rightarrow> file_write sv w1 temp_path b)
      | Stream read \<Rightarrow>
          (case open_wb sv w temp_path of
             Inl e \<Rightarrow> (Inl e, w)
           | Inr w1 \<Rightarrow>
               (case read of
                  Inl e \<Rightarrow> (Inl e, w1)
                | Inr b \<Rightarrow> file_write sv w1 temp_path b)))"

text \<open>\<^verbatim>\<open>if os.path.exists(p): os.remove(p)\<close>, at lines 65 to 66 and again in the handler.\<close>

definition remove_if_exists :: "world \<Rightarrow> string \<Rightarrow> exn + world" where
  "remove_if_exists w p = (if os_path_exists w p then os_remove w p else Inr w)"

record upload_result =
  status :: string
  message :: string

text \<open>The body of the \<^verbatim>\<open>try\<close> block of \<^verbatim>\<open>process_csv_upload\<close>, lines 51 to 71.\<close>

definition process_body ::
  "services \<Rightarrow> world \<Rightarrow> payload \<Rightarrow> string \<Rightarrow> string \<Rightarrow> (exn + upload_result) \<times> world" where
  "process_body sv w data filename project_id =
     (let temp_path = ''/tmp/'' @ filename in
      case save_payload sv w temp_path data of
        (Inl e, w1) \<Rightarrow> (Inl e, w1)
      | (Inr u, w1) \<Rightarrow>
          (case upload_to_sftp sv w1 temp_path filename project_id of
             (success, w2) \<Rightarrow>
               (case remove_if_exists w2 temp_path of
                  Inl e \<Rightarrow> (Inl e, w2)
                | Inr w3 \<Rightarrow>
                    if success
                    then (Inr \<lparr>status = ''success'',
                               message = ''File '' @ filename @ '' uploaded successfully''\<rparr>, w3)
                    else (Inr \<lparr>status = ''error'', message = ''Failed to upload file''\<rparr>,
                          w3))))"

text \<open>The entry point, with the handler of lines 73 to 77. The value \<open>Inl e\<close> is an
  exception that leaves the function.\<close>

definition process_csv_upload ::
  "services \<Rightarrow> world \<Rightarrow> payload \<Rightarrow> string \<Rightarrow> string \<Rightarrow> (exn + upload_result) \<times> world" where
  "process_csv_upload sv w data filename project_id =
     (case process_body sv w data filename project_id of
        (Inr result, w') \<Rightarrow> (Inr result, w')
      | (Inl e, w') \<Rightarrow>
          (let w1 = logging w' ERROR (''Error processing upload: '' @ str_exn e) in
           case remove_if_exists w1 (''/tmp/'' @ filename) of
             Inl e' \<Rightarrow> (Inl e', w1)
           | Inr w2 \<Rightarrow> (Inr \<lparr>status = ''error'', message = str_exn e\<rparr>, w2)))"

section \<open>What the specification says of the export file\<close>

text \<open>
  The record of a row: its values in the order of the columns, as text. The records of the
  export file: one header record, the column names, followed by one record for each row,
  in result order. \<open>csv_text\<close> is these records as the writer writes them.
\<close>

definition record_of :: "string list \<Rightarrow> row \<Rightarrow> string list" where
  "record_of columns r =
     map (\<lambda>column. case r column of None \<Rightarrow> [] | Some v \<Rightarrow> field_text v) columns"

definition export_records :: "result_set \<Rightarrow> string list list" where
  "export_records results = schema results # map (record_of (schema results)) (rows results)"

definition csv_text :: "result_set \<Rightarrow> string" where
  "csv_text results = concat (map writerow (export_records results))"

section \<open>Concrete environments\<close>

text \<open>The calls an invocation added to the record of calls.\<close>

definition new_calls :: "world \<Rightarrow> world \<Rightarrow> call list" where
  "new_calls w w' = drop (length (calls w)) (calls w')"

text \<open>A result set of three rows and two columns, one name holding a comma.\<close>

definition example_results :: result_set where
  "example_results =
     \<lparr>schema = [''id'', ''name''],
      rows = [[''id'' \<mapsto> Scalar ''1'', ''name'' \<mapsto> Text ''Jones''],
              [''id'' \<mapsto> Scalar ''2'', ''name'' \<mapsto> Null],
              [''id'' \<mapsto> Scalar ''3'', ''name'' \<mapsto> Text ''Smith, J.'']],
      fetch_error = None\<rparr>"

text \<open>Services that all answer: the relay endpoint with status 200.\<close>

definition example_services :: services where
  "example_services =
     \<lparr>b64decode_utf8 = (\<lambda>k. Inr ''{}''),
      load_key = (\<lambda>j. None),
      client_query = (\<lambda>c q. None),
      job_result = (\<lambda>c q. Inr example_results),
      gettempdir = ''/tmp'',
      random_names = [''k3x''],
      requests_post = (\<lambda>url name content mime. Inr \<lparr>status_code = 200, response_text = ''OK''\<rparr>),
      format_exc = (\<lambda>e. ''Traceback (most recent call last)''),
      access_secret_version = (\<lambda>name. Inr ''secret''),
      transport_init = (\<lambda>host port. None),
      transport_connect = (\<lambda>username password. None),
      sftp_from_transport = None,
      sftp_chdir = (\<lambda>directory. None),
      sftp_put = (\<lambda>local remote. None),
      open_error = (\<lambda>p. None),
      write_error = (\<lambda>p. None)\<rparr>"

text \<open>A world where the key is set and \<^verbatim>\<open>/tmp\<close> is a directory.\<close>

definition example_world :: world where
  "example_world =
     \<lparr>environ = [''SERVICE_ACCOUNT_KEY'' \<mapsto> ''e30=''],
      files = [''/tmp'' \<mapsto> Dir, ''/tmp/'' \<mapsto> Dir],
      unremovable = Map.empty,
      access_denied = (\<lambda>p. False),
      calls = [],
      logged = []\<rparr>"

text \<open>The same services with a relay endpoint that answers \<open>r\<close>, and with one whose call
  raises \<open>e\<close>.\<close>

definition relay_answers :: "response \<Rightarrow> services" where
  "relay_answers r = example_services\<lparr>requests_post := \<lambda>url name content mime. Inr r\<rparr>"

definition relay_raises :: "exn \<Rightarrow> services" where
  "relay_raises e = example_services\<lparr>requests_post := \<lambda>url name content mime. Inl e\<rparr>"

text \<open>The export file of the example, and the world after the query and after the export.\<close>

definition example_csv :: string where
  "example_csv = ''id,name'' @ [CR, LF] @ ''1,Jones'' @ [CR, LF] @ ''2,'' @ [CR, LF]
     @ ''3,'' @ [DQUOTE] @ ''Smith, J.'' @ [DQUOTE] @ [CR, LF]"

definition example_queried :: world where
  "example_queried = call (call example_world (ClientQuery query)) JobResult"

definition example_exported :: world where
  "example_exported =
     example_queried\<lparr>files := (files example_queried)(''/tmp/tmpk3x.csv'' \<mapsto> File example_csv)\<rparr>"

text \<open>A world in which \<^verbatim>\<open>/tmp/vault\<close> is a directory that the process may not search and
  that holds a file \<^verbatim>\<open>report.csv\<close>.\<close>

definition vault_world :: world where
  "vault_world =
     example_world\<lparr>files := (files example_world)(''/tmp/vault/report.csv'' \<mapsto> File ''old''),
                   access_denied := \<lambda>p. p = ''/tmp/vault/report.csv''\<rparr>"

text \<open>The result set of the example with the empty string in place of \<^verbatim>\<open>None\<close>.\<close>

definition example_results_blank :: result_set where
  "example_results_blank =
     \<lparr>schema = [''id'', ''name''],
      rows = [[''id'' \<mapsto> Scalar ''1'', ''name'' \<mapsto> Text ''Jones''],
              [''id'' \<mapsto> Scalar ''2'', ''name'' \<mapsto> Text []],
              [''id'' \<mapsto> Scalar ''3'', ''name'' \<mapsto> Text ''Smith, J.'']],
      fetch_error = None\<rparr>"

section \<open>Reading back what the writer wrote\<close>

lemma parse_unquoted:
  "\<not> needs_quote s \<Longrightarrow> parse IN_FIELD fs f (s @ rest) = parse IN_FIELD fs (f @ s) rest"
  by (induction s arbitrary: f) (simp_all add: needs_quote_def special_def)

lemma parse_quoted:
  "parse IN_QUOTED_FIELD fs f (double_quotes s @ DQUOTE # rest) =
   parse QUOTE_IN_QUOTED_FIELD fs (f @ s) rest"
  by (induction s arbitrary: f) simp_all

lemma parse_field_comma:
  "parse START_FIELD fs g (write_field s @ COMMA # rest) = parse START_FIELD (fs @ [s]) [] rest"
proof (cases "needs_quote s")
  case True
  then show ?thesis by (simp add: write_field_def parse_quoted)
next
  case False
  show ?thesis
  proof (cases s)
    case Nil
    then show ?thesis using False by (simp add: write_field_def)
  next
    case (Cons c cs)
    with False have c: "\<not> special c" and cs: "\<not> needs_quote cs"
      by (simp_all add: needs_quote_def)
    from c cs show ?thesis using False Cons
      by (simp add: write_field_def special_def parse_unquoted)
  qed
qed

lemma parse_field_crlf:
  "parse START_FIELD fs g (write_field s @ CR # LF # rest) = (fs @ [s]) # parse START_RECORD [] [] rest"
proof (cases "needs_quote s")
  case True
  then show ?thesis by (simp add: write_field_def parse_quoted)
next
  case False
  show ?thesis
  proof (cases s)
    case Nil
    then show ?thesis using False by (simp add: write_field_def)
  next
    case (Cons c cs)
    with False have c: "\<not> special c" and cs: "\<not> needs_quote cs"
      by (simp_all add: needs_quote_def)
    from c cs show ?thesis using False Cons
      by (simp add: write_field_def special_def parse_unquoted)
  qed
qed

lemma parse_fields:
  "ss \<noteq> [] \<Longrightarrow>
   parse START_FIELD fs g (join_fields ss @ CR # LF # rest) = (fs @ ss) # parse START_RECORD [] [] rest"
proof (induction ss arbitrary: fs g rule: join_fields.induct)
  case 1
  then show ?case by simp
next
  case (2 s)
  show ?case by (simp add: parse_field_crlf)
next
  case (3 s t ss)
  then show ?case by (simp add: parse_field_comma)
qed

text \<open>At the start of a record the reader behaves as at the start of a field, except on
  an end of line.\<close>

lemma parse_start_record:
  "c \<noteq> CR \<Longrightarrow> c \<noteq> LF \<Longrightarrow>
   parse START_RECORD fs g (c # cs) = parse START_FIELD [] [] (c # cs)"
  by simp

lemma write_field_first:
  "s \<noteq> [] \<Longrightarrow> \<exists>c cs. write_field s = c # cs \<and> c \<noteq> CR \<and> c \<noteq> LF"
  by (cases s) (auto simp: write_field_def needs_quote_def special_def)

lemma join_fields_first:
  assumes "ss \<noteq> []" and "ss \<noteq> [[]]"
  shows "\<exists>c cs. join_fields ss = c # cs \<and> c \<noteq> CR \<and> c \<noteq> LF"
proof (cases ss rule: join_fields.cases)
  case 1
  with assms show ?thesis by simp
next
  case (2 s)
  with assms have "s \<noteq> []" by simp
  with 2 show ?thesis using write_field_first [of s] by simp
next
  case (3 s t ts)
  show ?thesis
  proof (cases "s = []")
    case True
    with 3 show ?thesis by (simp add: write_field_def needs_quote_def)
  next
    case False
    then obtain c cs where "write_field s = c # cs" "c \<noteq> CR" "c \<noteq> LF"
      using write_field_first by blast
    with 3 show ?thesis by simp
  qed
qed

lemma parse_writerow:
  "parse START_RECORD fs g (writerow ss @ rest) = ss # parse START_RECORD [] [] rest"
proof (cases "ss = [] \<or> ss = [[]]")
  case True
  then show ?thesis by (auto simp: writerow_def)
next
  case False
  then obtain c cs where j: "join_fields ss = c # cs" and c: "c \<noteq> CR" "c \<noteq> LF"
    using join_fields_first by blast
  have "parse START_RECORD fs g (writerow ss @ rest) =
        parse START_RECORD fs g (c # (cs @ CR # LF # rest))"
    using False j by (simp add: writerow_def)
  also have "\<dots> = parse START_FIELD [] [] (c # (cs @ CR # LF # rest))"
    using c by (rule parse_start_record)
  also have "\<dots> = parse START_FIELD [] [] (join_fields ss @ CR # LF # rest)"
    using j by simp
  also have "\<dots> = ss # parse START_RECORD [] [] rest"
    using False parse_fields [of ss "[]" "[]" rest] by simp
  finally show ?thesis .
qed

lemma csv_reader_writerows:
  "csv_reader (concat (map writerow recs)) = recs"
  unfolding csv_reader_def
proof (induction recs)
  case Nil
  show ?case by simp
next
  case (Cons r recs)
  then show ?case by (simp add: parse_writerow)
qed

section \<open>The world through the transfer\<close>

lemma files_call: "files (call w c) = files w"
  by (simp add: call_def)

lemma files_logging: "files (logging w l m) = files w"
  by (simp add: logging_def)

lemma calls_call: "calls (call w c) = calls w @ [c]"
  by (simp add: call_def)

lemma calls_logging: "calls (logging w l m) = calls w"
  by (simp add: logging_def)

lemma access_denied_call: "access_denied (call w c) = access_denied w"
  by (simp add: call_def)

lemma access_denied_logging: "access_denied (logging w l m) = access_denied w"
  by (simp add: logging_def)

lemma unremovable_call: "unremovable (call w c) = unremovable w"
  by (simp add: call_def)

lemma unremovable_logging: "unremovable (logging w l m) = unremovable w"
  by (simp add: logging_def)

lemma new_calls_append: "calls w' = calls w @ cs \<Longrightarrow> new_calls w w' = cs"
  by (simp add: new_calls_def)

lemma get_secret_eq:
  "get_secret sv w p s v =
   (access_secret_version sv (secret_name p s v), call w (AccessSecretVersion (secret_name p s v)))"
  by (simp add: get_secret_def Let_def)

text \<open>The transfer does not change the local file system.\<close>

lemma files_upload_body:
  "files (snd (upload_body sv w l r p)) = files w"
  by (simp add: upload_body_def get_secret_eq files_call files_logging Let_def
      split: sum.splits option.splits)

lemma access_denied_upload_body:
  "access_denied (snd (upload_body sv w l r p)) = access_denied w"
  by (simp add: upload_body_def get_secret_eq access_denied_call access_denied_logging Let_def
      split: sum.splits option.splits)

lemma unremovable_upload_body:
  "unremovable (snd (upload_body sv w l r p)) = unremovable w"
  by (simp add: upload_body_def get_secret_eq unremovable_call unremovable_logging Let_def
      split: sum.splits option.splits)

lemma files_upload_to_sftp:
  "files (snd (upload_to_sftp sv w l r p)) = files w"
proof -
  obtain res w' where b: "upload_body sv w l r p = (res, w')"
    by (cases "upload_body sv w l r p")
  then have "files w' = files w"
    using files_upload_body [of sv w l r p] by simp
  with b show ?thesis
    by (cases res) (simp_all add: upload_to_sftp_def files_logging)
qed

lemma access_denied_upload_to_sftp:
  "access_denied (snd (upload_to_sftp sv w l r p)) = access_denied w"
proof -
  obtain res w' where b: "upload_body sv w l r p = (res, w')"
    by (cases "upload_body sv w l r p")
  then have "access_denied w' = access_denied w"
    using access_denied_upload_body [of sv w l r p] by simp
  with b show ?thesis
    by (cases res) (simp_all add: upload_to_sftp_def access_denied_logging)
qed

lemma unremovable_upload_to_sftp:
  "unremovable (snd (upload_to_sftp sv w l r p)) = unremovable w"
proof -
  obtain res w' where b: "upload_body sv w l r p = (res, w')"
    by (cases "upload_body sv w l r p")
  then have "unremovable w' = unremovable w"
    using unremovable_upload_body [of sv w l r p] by simp
  with b show ?thesis
    by (cases res) (simp_all add: upload_to_sftp_def unremovable_logging)
qed

section \<open>\<^verbatim>\<open>upload_to_sftp\<close>: the failure paths\<close>

text \<open>
  Claim C5. When the four secrets are read, the transport is opened and authenticated,
  the file-transfer session is created and the change to the remote directory raises an
  \<^verbatim>\<open>IOError\<close> (the directory is missing or inaccessible), \<^verbatim>\<open>upload_to_sftp\<close> returns
  \<^verbatim>\<open>False\<close>, and the calls it made are exactly the four lookups, the three steps of the
  connection, the directory change and then \<^verbatim>\<open>transport.close()\<close>: \<^verbatim>\<open>sftp.put\<close> is not
  among them and the close of the transport is the last of them.
\<close>

theorem chdir_failure_closes_transport:
  assumes "access_secret_version sv (secret_name project_id ''SFTP_HOST'' ''latest'') = Inr sftp_host"
    and "access_secret_version sv (secret_name project_id ''SFTP_USERNAME'' ''latest'') = Inr sftp_username"
    and "access_secret_version sv (secret_name project_id ''SFTP_PASSWORD'' ''latest'') = Inr sftp_password"
    and "access_secret_version sv (secret_name project_id ''SFTP_DIRECTORY'' ''latest'') = Inr sftp_directory"
    and "transport_init sv sftp_host 22 = None"
    and "transport_connect sv sftp_username sftp_password = None"
    and "sftp_from_transport sv = None"
    and "sftp_chdir sv sftp_directory = Some e"
    and "is_IOError e"
  shows "fst (upload_to_sftp sv w local_file_path remote_filename project_id) = False
       \<and> calls (snd (upload_to_sftp sv w local_file_path remote_filename project_id)) =
           calls w @
           [AccessSecretVersion (secret_name project_id ''SFTP_HOST'' ''latest''),
            AccessSecretVersion (secret_name project_id ''SFTP_USERNAME'' ''latest''),
            AccessSecretVersion (secret_name project_id ''SFTP_PASSWORD'' ''latest''),
            AccessSecretVersion (secret_name project_id ''SFTP_DIRECTORY'' ''latest''),
            Transport sftp_host 22,
            TransportConnect sftp_username sftp_password,
            SFTPClientFromTransport,
            SftpChdir sftp_directory,
            TransportClose]"
  using assms
  by (simp add: upload_to_sftp_def upload_body_def get_secret_eq calls_call calls_logging Let_def)

theorem chdir_failure_closes_transport_witness:
  "fst (upload_to_sftp (example_services\<lparr>sftp_chdir := \<lambda>d. Some (Exn FileNotFoundError ''[Errno 2] No such file'')\<rparr>)
          example_world ''/tmp/report.csv'' ''report.csv'' ''wondle'') = False
   \<and> calls (snd (upload_to_sftp (example_services\<lparr>sftp_chdir := \<lambda>d. Some (Exn FileNotFoundError ''[Errno 2] No such file'')\<rparr>)
          example_world ''/tmp/report.csv'' ''report.csv'' ''wondle'')) =
       [AccessSecretVersion ''projects/wondle/secrets/SFTP_HOST/versions/latest'',
        AccessSecretVersion ''projects/wondle/secrets/SFTP_USERNAME/versions/latest'',
        AccessSecretVersion ''projects/wondle/secrets/SFTP_PASSWORD/versions/latest'',
        AccessSecretVersion ''projects/wondle/secrets/SFTP_DIRECTORY/versions/latest'',
        Transport ''secret'' 22,
        TransportConnect ''secret'' ''secret'',
        SFTPClientFromTransport,
        SftpChdir ''secret'',
        TransportClose]"
  using chdir_failure_closes_transport [of "example_services\<lparr>sftp_chdir := \<lambda>d. Some (Exn FileNotFoundError ''[Errno 2] No such file'')\<rparr>"
      "''wondle''" "''secret''" "''secret''" "''secret''" "''secret''"
      "Exn FileNotFoundError ''[Errno 2] No such file''" example_world
      "''/tmp/report.csv''" "''report.csv''"]
  by (simp add: example_services_def example_world_def secret_name_def)

text \<open>
  Claim C10. When the transport is opened and a later step raises something other than an
  \<^verbatim>\<open>IOError\<close> of the directory change (the authentication, the creation of the
  file-transfer session, the directory change with another exception, or the upload),
  \<^verbatim>\<open>upload_to_sftp\<close> returns \<^verbatim>\<open>False\<close> and has opened the transport without calling
  \<^verbatim>\<open>sftp.close()\<close> or \<^verbatim>\<open>transport.close()\<close>: the connection is left unclosed.
\<close>

theorem failure_after_open_leaves_connection_unclosed:
  assumes "access_secret_version sv (secret_name project_id ''SFTP_HOST'' ''latest'') = Inr sftp_host"
    and "access_secret_version sv (secret_name project_id ''SFTP_USERNAME'' ''latest'') = Inr sftp_username"
    and "access_secret_version sv (secret_name project_id ''SFTP_PASSWORD'' ''latest'') = Inr sftp_password"
    and "access_secret_version sv (secret_name project_id ''SFTP_DIRECTORY'' ''latest'') = Inr sftp_directory"
    and "transport_init sv sftp_host 22 = None"
    and "transport_connect sv sftp_username sftp_password = Some e
       \<or> transport_connect sv sftp_username sftp_password = None
           \<and> sftp_from_transport sv = Some e
       \<or> transport_connect sv sftp_username sftp_password = None
           \<and> sftp_from_transport sv = None
           \<and> sftp_chdir sv sftp_directory = Some e \<and> \<not> is_IOError e
       \<or> transport_connect sv sftp_username sftp_password = None
           \<and> sftp_from_transport sv = None
           \<and> sftp_chdir sv sftp_directory = None
           \<and> sftp_put sv (files w local_file_path) remote_filename = Some e"
  shows "fst (upload_to_sftp sv w local_file_path remote_filename project_id) = False
       \<and> Transport sftp_host 22 \<in> set (new_calls w
            (snd (upload_to_sftp sv w local_file_path remote_filename project_id)))
       \<and> SftpClose \<notin> set (new_calls w
            (snd (upload_to_sftp sv w local_file_path remote_filename project_id)))
       \<and> TransportClose \<notin> set (new_calls w
            (snd (upload_to_sftp sv w local_file_path remote_filename project_id)))"
proof -
  let ?R = "upload_to_sftp sv w local_file_path remote_filename project_id"
  have "fst ?R = False \<and> (\<exists>cs. calls (snd ?R) = calls w @ cs \<and> Transport sftp_host 22 \<in> set cs
          \<and> SftpClose \<notin> set cs \<and> TransportClose \<notin> set cs)"
    using assms(6)
  proof (elim disjE conjE)
    assume "transport_connect sv sftp_username sftp_password = Some e"
    with assms(1-5) show ?thesis
      by (simp add: upload_to_sftp_def upload_body_def get_secret_eq calls_call calls_logging
          files_call Let_def)
  next
    assume "transport_connect sv sftp_username sftp_password = None"
      "sftp_from_transport sv = Some e"
    with assms(1-5) show ?thesis
      by (simp add: upload_to_sftp_def upload_body_def get_secret_eq calls_call calls_logging
          files_call Let_def)
  next
    assume "transport_connect sv sftp_username sftp_password = None"
      "sftp_from_transport sv = None" "sftp_chdir sv sftp_directory = Some e" "\<not> is_IOError e"
    with assms(1-5) show ?thesis
      by (simp add: upload_to_sftp_def upload_body_def get_secret_eq calls_call calls_logging
          files_call Let_def)
  next
    assume "transport_connect sv sftp_username sftp_password = None"
      "sftp_from_transport sv = None" "sftp_chdir sv sftp_directory = None"
      "sftp_put sv (files w local_file_path) remote_filename = Some e"
    with assms(1-5) show ?thesis
      by (simp add: upload_to_sftp_def upload_body_def get_secret_eq calls_call calls_logging
          files_call Let_def)
  qed
  then obtain cs where "fst ?R = False" "calls (snd ?R) = calls w @ cs"
    "Transport sftp_host 22 \<in> set cs" "SftpClose \<notin> set cs" "TransportClose \<notin> set cs"
    by blast
  then show ?thesis
    by (simp add: new_calls_append)
qed

theorem failure_after_open_leaves_connection_unclosed_witness:
  "fst (upload_to_sftp (example_services\<lparr>sftp_put := \<lambda>local remote. Some (Exn OtherException ''Failure'')\<rparr>)
          example_world ''/tmp/report.csv'' ''report.csv'' ''wondle'') = False
   \<and> Transport ''secret'' 22 \<in> set (new_calls example_world
        (snd (upload_to_sftp (example_services\<lparr>sftp_put := \<lambda>local remote. Some (Exn OtherException ''Failure'')\<rparr>)
          example_world ''/tmp/report.csv'' ''report.csv'' ''wondle'')))
   \<and> SftpClose \<notin> set (new_calls example_world
        (snd (upload_to_sftp (example_services\<lparr>sftp_put := \<lambda>local remote. Some (Exn OtherException ''Failure'')\<rparr>)
          example_world ''/tmp/report.csv'' ''report.csv'' ''wondle'')))
   \<and> TransportClose \<notin> set (new_calls example_world
        (snd (upload_to_sftp (example_services\<lparr>sftp_put := \<lambda>local remote. Some (Exn OtherException ''Failure'')\<rparr>)
          example_world ''/tmp/report.csv'' ''report.csv'' ''wondle'')))"
  using failure_after_open_leaves_connection_unclosed [of "example_services\<lparr>sftp_put := \<lambda>local remote. Some (Exn OtherException ''Failure'')\<rparr>"
      "''wondle''" "''secret''" "''secret''" "''secret''" "''secret''"
      "Exn OtherException ''Failure''" example_world "''/tmp/report.csv''" "''report.csv''"]
  by (simp add: example_services_def)

section \<open>\<^verbatim>\<open>process_csv_upload\<close>: the temporary file\<close>

lemma os_remove_Inr: "os_remove w p = Inr w' \<Longrightarrow> files w' p = None"
  by (auto simp: os_remove_def split: if_splits option.splits node.splits)

lemma not_exists_None: "files w p = None \<Longrightarrow> \<not> os_path_exists w p"
  by (simp add: os_path_exists_def)

lemma exists_File: "files w p = Some (File b) \<Longrightarrow> \<not> access_denied w p \<Longrightarrow> os_path_exists w p"
  by (simp add: os_path_exists_def)

text \<open>When the guarded removal returns, the path is not seen any more: it names nothing,
  or nothing was done because the path could not be seen.\<close>

lemma remove_if_exists_Inr:
  assumes "remove_if_exists w p = Inr w'"
  shows "\<not> os_path_exists w' p"
    and "files w' p = None \<or> w' = w \<and> (access_denied w p \<or> files w p = Some DanglingLink)"
proof -
  show "\<not> os_path_exists w' p"
  proof (cases "os_path_exists w p")
    case True
    with assms have "files w' p = None"
      by (simp add: remove_if_exists_def os_remove_Inr)
    then show ?thesis by (rule not_exists_None)
  next
    case False
    with assms show ?thesis by (simp add: remove_if_exists_def)
  qed
  show "files w' p = None \<or> w' = w \<and> (access_denied w p \<or> files w p = Some DanglingLink)"
  proof (cases "os_path_exists w p")
    case True
    with assms show ?thesis
      by (simp add: remove_if_exists_def os_remove_Inr)
  next
    case False
    with assms have "w' = w" by (simp add: remove_if_exists_def)
    with False show ?thesis
      by (auto simp: os_path_exists_def split: if_splits option.splits node.splits)
  qed
qed

text \<open>What saving the payload leaves: after a success the path names a regular file that
  the process can reach; after an exception either nothing was done or the file was
  opened.\<close>

lemma open_wb_Inr:
  "open_wb sv w p = Inr w1 \<Longrightarrow> \<not> access_denied w1 p \<and> files w1 p = Some (File [])"
  by (auto simp: open_wb_def create_def split: if_splits option.splits node.splits)

lemma save_payload_opened:
  assumes "open_wb sv w p = Inr wo" and "save_payload sv w p data = (res, w1)"
  shows "\<not> access_denied w1 p \<and> (\<exists>b. files w1 p = Some (File b))"
proof -
  from open_wb_Inr [OF assms(1)] have o: "\<not> access_denied wo p" "files wo p = Some (File [])"
    by simp_all
  from assms have "w1 = wo \<or> (\<exists>b. w1 = wo\<lparr>files := (files wo)(p \<mapsto> File b)\<rparr>)"
    by (cases data)
       (auto simp: save_payload_def file_write_def split: sum.splits option.splits)
  with o show ?thesis by auto
qed

lemma save_payload_Inr:
  assumes "save_payload sv w p data = (Inr u, w1)"
  shows "\<not> access_denied w1 p \<and> (\<exists>b. files w1 p = Some (File b))"
proof (cases "open_wb sv w p")
  case (Inl e)
  with assms show ?thesis
    by (cases data) (simp_all add: save_payload_def)
next
  case (Inr wo)
  then show ?thesis using assms by (rule save_payload_opened)
qed

lemma save_payload_Inl:
  assumes "save_payload sv w p data = (Inl e, w1)"
  shows "w1 = w \<or> \<not> access_denied w1 p \<and> (\<exists>b. files w1 p = Some (File b))"
proof (cases "open_wb sv w p")
  case (Inl e')
  with assms show ?thesis
    by (cases data) (simp_all add: save_payload_def)
next
  case (Inr wo)
  then show ?thesis using assms save_payload_opened by blast
qed

lemma process_body_Inr:
  assumes "process_body sv w data filename project_id = (Inr r, w')"
  shows "files w' (''/tmp/'' @ filename) = None
       \<and> (status r = ''success'' \<or> status r = ''error'')"
proof -
  let ?p = "''/tmp/'' @ filename"
  obtain res w1 where s: "save_payload sv w ?p data = (res, w1)"
    by (cases "save_payload sv w ?p data")
  obtain success w2 where u: "upload_to_sftp sv w1 ?p filename project_id = (success, w2)"
    by (cases "upload_to_sftp sv w1 ?p filename project_id")
  from assms s obtain v where res: "res = Inr v"
    by (cases res) (simp_all add: process_body_def)
  from u have f: "files w2 = files w1" "access_denied w2 = access_denied w1"
    using files_upload_to_sftp [of sv w1 ?p filename project_id]
      access_denied_upload_to_sftp [of sv w1 ?p filename project_id] by simp_all
  from save_payload_Inr [OF s [unfolded res]] f have "os_path_exists w2 ?p"
    by (auto simp: os_path_exists_def)
  with assms s u res show ?thesis
    by (auto simp: process_body_def remove_if_exists_def Let_def
        split: sum.splits if_splits dest: os_remove_Inr)
qed

lemma process_body_Inl:
  assumes "process_body sv w data filename project_id = (Inl e, w1)"
  shows "w1 = w \<or> \<not> access_denied w1 (''/tmp/'' @ filename)
           \<and> (\<exists>b. files w1 (''/tmp/'' @ filename) = Some (File b))"
proof -
  let ?p = "''/tmp/'' @ filename"
  obtain res ws where s: "save_payload sv w ?p data = (res, ws)"
    by (cases "save_payload sv w ?p data")
  show ?thesis
  proof (cases res)
    case (Inl e')
    with assms s have "w1 = ws"
      by (simp add: process_body_def)
    with s Inl show ?thesis
      using save_payload_Inl [of sv w ?p data e' ws] by simp
  next
    case (Inr v)
    obtain success w2 where u: "upload_to_sftp sv ws ?p filename project_id = (success, w2)"
      by (cases "upload_to_sftp sv ws ?p filename project_id")
    then have f: "files w2 = files ws" "access_denied w2 = access_denied ws"
      using files_upload_to_sftp [of sv ws ?p filename project_id]
        access_denied_upload_to_sftp [of sv ws ?p filename project_id] by simp_all
    from assms s Inr u have "w1 = w2"
      by (auto simp: process_body_def Let_def split: sum.splits if_splits)
    with f save_payload_Inr [OF s [unfolded Inr]] show ?thesis by simp
  qed
qed

text \<open>A run of \<^verbatim>\<open>process_csv_upload\<close> in which every service answers.\<close>

lemma example_upload:
  "process_csv_upload example_services example_world (Bytes ''a,b'') ''report.csv'' ''wondle'' =
   (Inr \<lparr>status = ''success'', message = ''File report.csv uploaded successfully''\<rparr>,
    example_world\<lparr>calls :=
       [AccessSecretVersion ''projects/wondle/secrets/SFTP_HOST/versions/latest'',
        AccessSecretVersion ''projects/wondle/secrets/SFTP_USERNAME/versions/latest'',
        AccessSecretVersion ''projects/wondle/secrets/SFTP_PASSWORD/versions/latest'',
        AccessSecretVersion ''projects/wondle/secrets/SFTP_DIRECTORY/versions/latest'',
        Transport ''secret'' 22,
        TransportConnect ''secret'' ''secret'',
        SFTPClientFromTransport,
        SftpChdir ''secret'',
        SftpPut ''/tmp/report.csv'' ''report.csv'',
        SftpClose,
        TransportClose],
      logged := [(INFO, ''Successfully uploaded /tmp/report.csv to secret/report.csv'')]\<rparr>)"
  by (simp add: process_csv_upload_def process_body_def save_payload_def open_wb_def create_def
      file_write_def upload_to_sftp_def upload_body_def get_secret_def secret_name_def
      call_def logging_def remove_if_exists_def os_path_exists_def os_remove_def
      example_services_def example_world_def Let_def)

text \<open>A run in which the file is already there, under a directory that the process may
  not search: the file cannot be opened and cannot be seen.\<close>

lemma vault_upload:
  "process_csv_upload example_services vault_world (Bytes ''a,b'') ''vault/report.csv'' ''wondle'' =
   (Inr \<lparr>status = ''error'',
         message = ''[Errno 13] Permission denied: '' @ [SQUOTE] @ ''/tmp/vault/report.csv''
                     @ [SQUOTE]\<rparr>,
    vault_world\<lparr>logged :=
       [(ERROR, ''Error processing upload: [Errno 13] Permission denied: '' @ [SQUOTE]
                  @ ''/tmp/vault/report.csv'' @ [SQUOTE])]\<rparr>)"
  by (simp add: process_csv_upload_def process_body_def save_payload_def open_wb_def
      logging_def remove_if_exists_def os_path_exists_def permission_denied_def repr_def
      repr_char_def vault_world_def example_world_def Let_def)

text \<open>
  Claim C6, as the specification states it, does not hold of the code: in the run above
  \<^verbatim>\<open>process_csv_upload\<close> returns an error result and the file at \<^verbatim>\<open>/tmp/<filename>\<close> is
  still there.
\<close>

theorem temp_file_present_after_return:
  "fst (process_csv_upload example_services vault_world (Bytes ''a,b'') ''vault/report.csv''
          ''wondle'') =
     Inr \<lparr>status = ''error'',
          message = ''[Errno 13] Permission denied: '' @ [SQUOTE] @ ''/tmp/vault/report.csv''
                      @ [SQUOTE]\<rparr>
   \<and> files (snd (process_csv_upload example_services vault_world (Bytes ''a,b'')
          ''vault/report.csv'' ''wondle'')) (''/tmp/'' @ ''vault/report.csv'') = Some (File ''old'')"
  unfolding vault_upload by (simp add: vault_world_def)

text \<open>
  Claim C6, amended. For every payload, bytes or stream, and every filename: when
  \<^verbatim>\<open>process_csv_upload\<close> returns a result, its status is \<^verbatim>\<open>success\<close> or \<^verbatim>\<open>error\<close> and
  \<^verbatim>\<open>os.path.exists\<close> is false of \<^verbatim>\<open>/tmp/<filename>\<close>. The path then names nothing, with one
  exception: the result is an error and the file was never opened, because the process
  may not reach the path or the path is a dangling symbolic link; then the path names
  what it named before the call.
\<close>

theorem temp_file_unseen_after_return:
  assumes "process_csv_upload sv w data filename project_id = (Inr result, w')"
  shows "\<not> os_path_exists w' (''/tmp/'' @ filename)
       \<and> (status result = ''success'' \<or> status result = ''error'')
       \<and> (files w' (''/tmp/'' @ filename) = None
            \<or> status result = ''error''
              \<and> files w' (''/tmp/'' @ filename) = files w (''/tmp/'' @ filename)
              \<and> (access_denied w (''/tmp/'' @ filename)
                   \<or> files w (''/tmp/'' @ filename) = Some DanglingLink))"
proof -
  let ?p = "''/tmp/'' @ filename"
  obtain res w1 where b: "process_body sv w data filename project_id = (res, w1)"
    by (cases "process_body sv w data filename project_id")
  show ?thesis
  proof (cases res)
    case (Inr r)
    with b assms have eq: "r = result" "w1 = w'"
      by (simp_all add: process_csv_upload_def)
    from process_body_Inr [OF b [unfolded Inr eq]] show ?thesis
      by (simp add: not_exists_None)
  next
    case (Inl e)
    let ?wl = "logging w1 ERROR (''Error processing upload: '' @ str_exn e)"
    from b Inl assms have r: "remove_if_exists ?wl ?p = Inr w'"
      and s: "status result = ''error''"
      by (auto simp: process_csv_upload_def Let_def split: sum.splits)
    from remove_if_exists_Inr [OF r]
    have n: "\<not> os_path_exists w' ?p"
      and c: "files w' ?p = None
              \<or> w' = ?wl \<and> (access_denied ?wl ?p \<or> files ?wl ?p = Some DanglingLink)"
      by simp_all
    from c show ?thesis
    proof
      assume "files w' ?p = None"
      with n s show ?thesis by simp
    next
      assume d: "w' = ?wl \<and> (access_denied ?wl ?p \<or> files ?wl ?p = Some DanglingLink)"
      then have u: "access_denied w1 ?p \<or> files w1 ?p = Some DanglingLink"
        by (simp add: files_logging access_denied_logging)
      with process_body_Inl [OF b [unfolded Inl]] have "w1 = w"
        by auto
      with d u n s show ?thesis
        by (auto simp: files_logging)
    qed
  qed
qed

theorem temp_file_unseen_after_return_witness:
  "\<not> os_path_exists
       (snd (process_csv_upload example_services example_world (Bytes ''a,b'') ''report.csv''
               ''wondle'')) (''/tmp/'' @ ''report.csv'')
   \<and> status (projr (fst (process_csv_upload example_services example_world (Bytes ''a,b'')
            ''report.csv'' ''wondle''))) = ''success''
   \<and> files (snd (process_csv_upload example_services example_world (Bytes ''a,b'') ''report.csv''
            ''wondle'')) (''/tmp/'' @ ''report.csv'') = None
   \<and> \<not> os_path_exists
       (snd (process_csv_upload example_services vault_world (Bytes ''a,b'') ''vault/report.csv''
               ''wondle'')) (''/tmp/'' @ ''vault/report.csv'')
   \<and> access_denied vault_world (''/tmp/'' @ ''vault/report.csv'')"
proof -
  have a: "access_denied vault_world (''/tmp/'' @ ''vault/report.csv'')"
    by (simp add: vault_world_def)
  have "status \<lparr>status = ''success'', message = ''File report.csv uploaded successfully''\<rparr>
      \<noteq> ''error''"
    by simp
  with temp_file_unseen_after_return [OF example_upload]
    temp_file_unseen_after_return [OF vault_upload] a
  show ?thesis
    by (simp add: example_upload vault_upload)
qed

text \<open>
  Claim C9. For every content \<open>b\<close> and filename, the call with the bytes \<open>b\<close> and the call
  with a stream whose \<^verbatim>\<open>read()\<close> returns \<open>b\<close> leave the same world after saving the payload,
  with the content \<open>b\<close> in \<^verbatim>\<open>/tmp/<filename>\<close> when the file could be written, and
  \<^verbatim>\<open>process_csv_upload\<close> gives the same outcome and the same final world for both.
\<close>

theorem bytes_and_stream_equivalent:
  "save_payload sv w (''/tmp/'' @ filename) (Stream (Inr b)) =
     save_payload sv w (''/tmp/'' @ filename) (Bytes b)
   \<and> process_csv_upload sv w (Stream (Inr b)) filename project_id =
     process_csv_upload sv w (Bytes b) filename project_id
   \<and> (case save_payload sv w (''/tmp/'' @ filename) (Bytes b) of
        (Inr u, w') \<Rightarrow> files w' (''/tmp/'' @ filename) = Some (File b)
      | (Inl e, w') \<Rightarrow> True)"
proof -
  have s: "save_payload sv w p (Stream (Inr b)) = save_payload sv w p (Bytes b)" for p
    by (simp add: save_payload_def split: sum.splits)
  have "process_body sv w (Stream (Inr b)) filename project_id =
        process_body sv w (Bytes b) filename project_id"
    by (simp add: process_body_def s)
  then have p: "process_csv_upload sv w (Stream (Inr b)) filename project_id =
        process_csv_upload sv w (Bytes b) filename project_id"
    by (simp add: process_csv_upload_def)
  have c: "case save_payload sv w p (Bytes b) of
        (Inr u, w') \<Rightarrow> files w' p = Some (File b)
      | (Inl e, w') \<Rightarrow> True" for p
    by (simp add: save_payload_def open_wb_def file_write_def
        split: sum.splits option.splits node.splits)
  show ?thesis
    using s [of "''/tmp/'' @ filename"] p c [of "''/tmp/'' @ filename"]
    by (intro conjI)
qed

theorem bytes_and_stream_equivalent_witness:
  "save_payload example_services example_world ''/tmp/report.csv'' (Stream (Inr ''a,b'')) =
     save_payload example_services example_world ''/tmp/report.csv'' (Bytes ''a,b'')
   \<and> process_csv_upload example_services example_world (Stream (Inr ''a,b'')) ''report.csv''
       ''wondle'' =
     process_csv_upload example_services example_world (Bytes ''a,b'') ''report.csv'' ''wondle''
   \<and> files (snd (save_payload example_services example_world ''/tmp/report.csv''
        (Bytes ''a,b''))) ''/tmp/report.csv'' = Some (File ''a,b'')"
  using bytes_and_stream_equivalent [of example_services example_world "''report.csv''" "''a,b''"
      "''wondle''"]
  by (simp add: save_payload_def open_wb_def file_write_def example_services_def
      example_world_def)

text \<open>
  Claim C7 does not hold of the code. With the empty filename the path is \<^verbatim>\<open>/tmp/\<close>, a
  directory: opening it for writing raises, the handler finds that the path exists and
  calls \<^verbatim>\<open>os.remove\<close> on it, and the exception of that call leaves
  \<^verbatim>\<open>process_csv_upload\<close>, for every payload.
\<close>

theorem process_csv_upload_raises_on_directory:
  "fst (process_csv_upload sv example_world data [] project_id) =
     Inl (Exn IsADirectoryError
            (''[Errno 21] Is a directory: '' @ [SQUOTE] @ ''/tmp/'' @ [SQUOTE]))"
proof -
  have r: "repr ''/tmp/'' = [SQUOTE] @ ''/tmp/'' @ [SQUOTE]"
    by (simp add: repr_def repr_char_def Let_def)
  have d: "files example_world ''/tmp/'' = Some Dir"
    by (simp add: example_world_def)
  have a: "\<not> access_denied example_world ''/tmp/''"
    by (simp add: example_world_def)
  from d a show ?thesis
    by (cases data)
       (simp_all add: process_csv_upload_def process_body_def save_payload_def open_wb_def
        logging_def remove_if_exists_def os_path_exists_def os_remove_def is_a_directory_def
        r Let_def)
qed

section \<open>The export file\<close>

lemma row_getitems_Inr:
  "row_getitems columns r = Inr vs \<Longrightarrow> map field_text vs = record_of columns r"
  by (induction columns arbitrary: vs)
     (auto simp: record_of_def split: option.splits sum.splits)

lemma row_getitems_complete:
  "set columns \<subseteq> dom r \<Longrightarrow> \<exists>vs. row_getitems columns r = Inr vs"
  by (induction columns) (auto split: option.splits sum.splits)

lemma write_rows_None:
  "write_rows columns rs err written n = (None, written', n') \<Longrightarrow>
   written' = written @ concat (map (\<lambda>r. writerow (record_of columns r)) rs) \<and> n' = n + length rs"
proof (induction rs arbitrary: written n)
  case Nil
  then show ?case by simp
next
  case (Cons r rs)
  from Cons.prems obtain vs where vs: "row_getitems columns r = Inr vs"
    and rest: "write_rows columns rs err (written @ writerow (map field_text vs)) (n + 1) =
      (None, written', n')"
    by (auto split: sum.splits)
  from Cons.IH [OF rest] row_getitems_Inr [OF vs] show ?case by simp
qed

lemma write_rows_complete:
  "\<forall>r \<in> set rs. set columns \<subseteq> dom r \<Longrightarrow>
   write_rows columns rs err written n =
     (err, written @ concat (map (\<lambda>r. writerow (record_of columns r)) rs), n + length rs)"
proof (induction rs arbitrary: written n)
  case Nil
  then show ?case by simp
next
  case (Cons r rs)
  then obtain vs where vs: "row_getitems columns r = Inr vs"
    using row_getitems_complete [of columns r] by auto
  with Cons show ?case
    using row_getitems_Inr [OF vs] by simp
qed

lemma NamedTemporaryFile_Inr:
  "NamedTemporaryFile sv w = Inr (p, w1) \<Longrightarrow>
   files w p = None \<and> \<not> access_denied w p \<and> w1 = create w p"
  by (auto simp: NamedTemporaryFile_def find_Some_iff split: option.splits if_splits)

lemma csv_text_eq:
  "csv_text results = writerow (schema results)
     @ concat (map (\<lambda>r. writerow (record_of (schema results) r)) (rows results))"
  by (simp add: csv_text_def export_records_def comp_def)

lemma write_export_Inr:
  assumes "write_export sv w results = (Inr (temp_path, row_count), w')"
  shows "files w' temp_path = Some (File (csv_text results)) \<and> row_count = length (rows results)
       \<and> \<not> access_denied w' temp_path \<and> unremovable w' temp_path = None"
proof -
  from assms obtain w1 written where n: "NamedTemporaryFile sv w = Inr (temp_path, w1)"
    and r: "write_rows (schema results) (rows results) (fetch_error results)
              (writerow (schema results)) 0 = (None, written, row_count)"
    and w: "w' = w1\<lparr>files := (files w1)(temp_path \<mapsto> File written)\<rparr>"
    by (auto simp: write_export_def Let_def split: sum.splits prod.splits option.splits)
  from write_rows_None [OF r] have "written = csv_text results" "row_count = length (rows results)"
    by (simp_all add: csv_text_eq)
  with NamedTemporaryFile_Inr [OF n] w show ?thesis
    by (simp add: create_def)
qed

lemma write_export_complete:
  assumes "fetch_error results = None"
    and "\<forall>r \<in> set (rows results). set (schema results) \<subseteq> dom r"
    and "NamedTemporaryFile sv w = Inr (temp_path, w1)"
  shows "write_export sv w results =
     (Inr (temp_path, length (rows results)),
      w1\<lparr>files := (files w1)(temp_path \<mapsto> File (csv_text results))\<rparr>)"
  using assms
  by (simp add: write_export_def Let_def csv_text_eq write_rows_complete)

lemma csv_reader_csv_text: "csv_reader (csv_text results) = export_records results"
  by (simp add: csv_text_def csv_reader_writerows)

section \<open>\<^verbatim>\<open>export_and_upload\<close>: the relay and the answer\<close>

text \<open>What \<^verbatim>\<open>export_and_upload\<close> does when the relay endpoint returns a response.\<close>

lemma relay_response:
  assumes "run_query sv w = (Inr results, w1)"
    and "write_export sv w1 results = (Inr (temp_path, row_count), w2)"
    and "files w2 temp_path = Some (File csv_file)"
    and "requests_post sv CLOUD_RUN_URL (basename temp_path) csv_file ''text/csv'' = Inr response"
  shows "export_and_upload sv w request =
           (if status_code response = 200
            then (''Successfully exported '' @ str_nat row_count
                    @ '' rows and uploaded to RAMP Data Upload'', 200)
            else (''Error uploading to Cloud Run: '' @ response_text response, 500),
            (call w2 (RequestsPost CLOUD_RUN_URL ''file'' (basename temp_path) csv_file
                        ''text/csv''))\<lparr>files := (files w2)(temp_path := None)\<rparr>)
       \<and> files (snd (export_and_upload sv w request)) temp_path = None"
proof -
  let ?w3 = "call w2 (RequestsPost CLOUD_RUN_URL ''file'' (basename temp_path) csv_file ''text/csv'')"
  from write_export_Inr [OF assms(2)]
  have a: "\<not> access_denied w2 temp_path" "unremovable w2 temp_path = None"
    by simp_all
  have rm: "os_remove ?w3 temp_path = Inr (?w3\<lparr>files := (files w2)(temp_path := None)\<rparr>)"
    using assms(3) a by (simp add: os_remove_def call_def)
  have "relay sv w2 temp_path row_count =
          (Inr (if status_code response = 200
            then (''Successfully exported '' @ str_nat row_count
                    @ '' rows and uploaded to RAMP Data Upload'', 200)
            else (''Error uploading to Cloud Run: '' @ response_text response, 500)),
           ?w3\<lparr>files := (files w2)(temp_path := None)\<rparr>)"
    using assms(3,4) a rm by (simp add: relay_def open_rb_def Let_def)
  with assms(1,2) show ?thesis
    by (simp add: export_and_upload_def export_body_def)
qed

text \<open>What it does when the call to the relay endpoint raises.\<close>

lemma relay_exception_keeps_file:
  assumes "run_query sv w = (Inr results, w1)"
    and "write_export sv w1 results = (Inr (temp_path, row_count), w2)"
    and "files w2 temp_path = Some (File csv_file)"
    and "requests_post sv CLOUD_RUN_URL (basename temp_path) csv_file ''text/csv'' = Inl e"
  shows "export_and_upload sv w request =
           ((''Error: '' @ str_exn e @ [LF, LF] @ ''Details: '' @ format_exc sv e, 500),
            call w2 (RequestsPost CLOUD_RUN_URL ''file'' (basename temp_path) csv_file
                       ''text/csv''))"
proof -
  from write_export_Inr [OF assms(2)] have a: "\<not> access_denied w2 temp_path"
    by simp
  have "relay sv w2 temp_path row_count =
          (Inl e, call w2 (RequestsPost CLOUD_RUN_URL ''file'' (basename temp_path) csv_file
                       ''text/csv''))"
    using assms(3,4) a by (simp add: relay_def open_rb_def Let_def)
  with assms(1,2) show ?thesis
    by (simp add: export_and_upload_def export_body_def)
qed

text \<open>The run of the example: the query, the temporary file and the export.\<close>

lemma example_run_query:
  "run_query (example_services\<lparr>requests_post := f\<rparr>) example_world =
     (Inr example_results, example_queried)"
  by (simp add: run_query_def example_services_def example_world_def example_queried_def
      Let_def)

lemma example_csv_text: "csv_text example_results = example_csv"
  by (simp add: csv_text_def export_records_def record_of_def example_results_def
      writerow_def write_field_def needs_quote_def special_def example_csv_def)

lemma example_rows_complete:
  "\<forall>r \<in> set (rows example_results). set (schema example_results) \<subseteq> dom r"
  by (simp add: example_results_def)

lemma example_NamedTemporaryFile:
  "NamedTemporaryFile (example_services\<lparr>requests_post := f\<rparr>) example_queried =
     Inr (''/tmp/tmpk3x.csv'',
          example_queried\<lparr>files := (files example_queried)(''/tmp/tmpk3x.csv'' \<mapsto> File [])\<rparr>)"
  by (simp add: NamedTemporaryFile_def temp_candidates_def example_services_def
      example_queried_def example_world_def call_def create_def)

lemma example_write_export:
  "write_export (example_services\<lparr>requests_post := f\<rparr>) example_queried example_results =
     (Inr (''/tmp/tmpk3x.csv'', 3), example_exported)"
  using write_export_complete [OF _ example_rows_complete example_NamedTemporaryFile]
  by (simp add: example_results_def example_csv_text [unfolded example_results_def]
      example_exported_def)

lemma example_file: "files example_exported ''/tmp/tmpk3x.csv'' = Some (File example_csv)"
  by (simp add: example_exported_def)

lemma example_basename: "basename ''/tmp/tmpk3x.csv'' = ''tmpk3x.csv''"
  by (simp add: basename_def)

text \<open>
  Claim C4. When \<^verbatim>\<open>SERVICE_ACCOUNT_KEY\<close> is unset or empty, \<^verbatim>\<open>export_and_upload\<close> answers with
  status 500 and a body that carries the message of the configuration error, and the world
  is unchanged: no call to the warehouse or to the relay endpoint was made.
\<close>

theorem missing_key_fails_without_network_call:
  assumes "environ w ''SERVICE_ACCOUNT_KEY'' = None \<or> environ w ''SERVICE_ACCOUNT_KEY'' = Some []"
  shows "export_and_upload sv w request =
           ((''Error: SERVICE_ACCOUNT_KEY environment variable is not set'' @ [LF, LF]
               @ ''Details: '' @ format_exc sv key_not_set, 500), w)
       \<and> new_calls w (snd (export_and_upload sv w request)) = []"
proof -
  from assms have "run_query sv w = (Inl key_not_set, w)"
    by (auto simp: run_query_def)
  then have "export_and_upload sv w request =
           ((''Error: SERVICE_ACCOUNT_KEY environment variable is not set'' @ [LF, LF]
               @ ''Details: '' @ format_exc sv key_not_set, 500), w)"
    by (simp add: export_and_upload_def export_body_def key_not_set_def)
  then show ?thesis by (simp add: new_calls_def)
qed

theorem missing_key_fails_without_network_call_witness:
  "export_and_upload example_services (example_world\<lparr>environ := Map.empty\<rparr>) [] =
     ((''Error: SERVICE_ACCOUNT_KEY environment variable is not set'' @ [LF, LF]
         @ ''Details: Traceback (most recent call last)'', 500),
      example_world\<lparr>environ := Map.empty\<rparr>)
   \<and> new_calls (example_world\<lparr>environ := Map.empty\<rparr>)
        (snd (export_and_upload example_services (example_world\<lparr>environ := Map.empty\<rparr>) [])) = []"
proof -
  have f: "format_exc example_services e = ''Traceback (most recent call last)''" for e
    by (simp add: example_services_def)
  show ?thesis
    using missing_key_fails_without_network_call [of "example_world\<lparr>environ := Map.empty\<rparr>" example_services "[]"]
    by (simp add: f new_calls_def)
qed

text \<open>
  Claim C8. When the query and the export succeed and the POST to the relay endpoint
  returns a response, \<^verbatim>\<open>export_and_upload\<close> answers with the success message that embeds
  the row count and status 200 if the response has status 200, and with the failure
  message that carries the text of the response and status 500 otherwise; in both cases
  the next thing after the POST is the removal of the export file, which is gone in the
  final world.
\<close>

theorem relay_answer_and_cleanup:
  assumes "run_query sv w = (Inr results, w1)"
    and "write_export sv w1 results = (Inr (temp_path, row_count), w2)"
    and "requests_post sv CLOUD_RUN_URL (basename temp_path) (csv_text results) ''text/csv''
           = Inr response"
  shows "export_and_upload sv w request =
           (if status_code response = 200
            then (''Successfully exported '' @ str_nat row_count
                    @ '' rows and uploaded to RAMP Data Upload'', 200)
            else (''Error uploading to Cloud Run: '' @ response_text response, 500),
            (call w2 (RequestsPost CLOUD_RUN_URL ''file'' (basename temp_path)
                        (csv_text results) ''text/csv''))\<lparr>files := (files w2)(temp_path := None)\<rparr>)
       \<and> files (snd (export_and_upload sv w request)) temp_path = None"
proof -
  have f: "files w2 temp_path = Some (File (csv_text results))"
    using write_export_Inr [OF assms(2)] by simp
  show ?thesis
    using assms(1) assms(2) f assms(3) by (rule relay_response)
qed

theorem relay_answer_and_cleanup_witness:
  "export_and_upload (relay_answers \<lparr>status_code = 200, response_text = ''OK''\<rparr>)
       example_world [] =
     ((''Successfully exported 3 rows and uploaded to RAMP Data Upload'', 200),
      (call example_exported (RequestsPost CLOUD_RUN_URL ''file'' ''tmpk3x.csv'' example_csv
          ''text/csv''))\<lparr>files := (files example_exported)(''/tmp/tmpk3x.csv'' := None)\<rparr>)
   \<and> export_and_upload (relay_answers \<lparr>status_code = 503, response_text = ''Service Unavailable''\<rparr>)
       example_world [] =
     ((''Error uploading to Cloud Run: Service Unavailable'', 500),
      (call example_exported (RequestsPost CLOUD_RUN_URL ''file'' ''tmpk3x.csv'' example_csv
          ''text/csv''))\<lparr>files := (files example_exported)(''/tmp/tmpk3x.csv'' := None)\<rparr>)"
proof -
  have p: "requests_post (example_services\<lparr>requests_post := \<lambda>url name content mime. Inr r\<rparr>)
      CLOUD_RUN_URL (basename ''/tmp/tmpk3x.csv'') example_csv ''text/csv'' = Inr r" for r
    by simp
  have n: "str_nat 3 = ''3''"
    by code_simp
  show ?thesis
    using relay_answer_and_cleanup [OF example_run_query example_write_export
        p [unfolded example_csv_text [symmetric]], of _ "[]"]
    by (simp add: example_basename n relay_answers_def example_csv_text)
qed

text \<open>
  Claim C2. For a result set of \<open>N\<close> rows, each with a value for every one of the \<open>C\<close>
  columns of the schema, the export stage writes a file that holds the header record and
  then the \<open>N\<close> records of the rows, in result order and with the fields in schema order;
  read back, these are \<open>1 + N\<close> records of \<open>C\<close> fields each, the count of rows is \<open>N\<close>, and
  the success message reports \<open>N\<close>.
\<close>

theorem export_file_records:
  assumes "run_query sv w = (Inr results, w1)"
    and "fetch_error results = None"
    and "\<forall>row \<in> set (rows results). set (schema results) \<subseteq> dom row"
    and "NamedTemporaryFile sv w1 = Inr (temp_path, w2)"
  shows "write_export sv w1 results =
           (Inr (temp_path, length (rows results)),
            w2\<lparr>files := (files w2)(temp_path \<mapsto> File (csv_text results))\<rparr>)
       \<and> csv_reader (csv_text results) = export_records results
       \<and> length (export_records results) = 1 + length (rows results)
       \<and> (\<forall>record \<in> set (export_records results). length record = length (schema results))
       \<and> (\<forall>response.
             requests_post sv CLOUD_RUN_URL (basename temp_path) (csv_text results) ''text/csv''
               = Inr response \<and> status_code response = 200 \<longrightarrow>
             fst (export_and_upload sv w request) =
               (''Successfully exported '' @ str_nat (length (rows results))
                  @ '' rows and uploaded to RAMP Data Upload'', 200))"
proof -
  let ?w3 = "w2\<lparr>files := (files w2)(temp_path \<mapsto> File (csv_text results))\<rparr>"
  have e: "write_export sv w1 results = (Inr (temp_path, length (rows results)), ?w3)"
    using assms(2-4) by (rule write_export_complete)
  have f: "files ?w3 temp_path = Some (File (csv_text results))"
    by simp
  have l: "\<forall>record \<in> set (export_records results). length record = length (schema results)"
    by (auto simp: export_records_def record_of_def)
  have m: "fst (export_and_upload sv w request) =
               (''Successfully exported '' @ str_nat (length (rows results))
                  @ '' rows and uploaded to RAMP Data Upload'', 200)"
    if "requests_post sv CLOUD_RUN_URL (basename temp_path) (csv_text results) ''text/csv''
               = Inr response" "status_code response = 200" for response
    using relay_response [OF assms(1) e f that(1), of request] that(2) by simp
  from e l m show ?thesis
    by (simp add: csv_reader_csv_text export_records_def)
qed

theorem export_file_records_witness:
  "write_export (relay_answers \<lparr>status_code = 200, response_text = ''OK''\<rparr>) example_queried
       example_results = (Inr (''/tmp/tmpk3x.csv'', 3), example_exported)
   \<and> csv_reader example_csv =
       [[''id'', ''name''], [''1'', ''Jones''], [''2'', []], [''3'', ''Smith, J.'']]
   \<and> fst (export_and_upload (relay_answers \<lparr>status_code = 200, response_text = ''OK''\<rparr>)
          example_world []) =
       (''Successfully exported 3 rows and uploaded to RAMP Data Upload'', 200)"
proof -
  have f: "fetch_error example_results = None"
    by (simp add: example_results_def)
  have r: "export_records example_results =
       [[''id'', ''name''], [''1'', ''Jones''], [''2'', []], [''3'', ''Smith, J.'']]"
    by (simp add: export_records_def record_of_def example_results_def)
  have l: "length (rows example_results) = 3"
    by (simp add: example_results_def)
  have n: "str_nat 3 = ''3''"
    by code_simp
  have p: "requests_post (example_services\<lparr>requests_post := \<lambda>url name content mime. Inr r\<rparr>)
      u m c t = Inr r" for r u m c t
    by simp
  show ?thesis
    using export_file_records [OF example_run_query f example_rows_complete
        example_NamedTemporaryFile, of _ "[]"]
    by (simp add: relay_answers_def example_csv_text r l n p example_exported_def)
qed

text \<open>
  Claim C3, as the specification states it, does not hold of the code: the writer writes
  \<^verbatim>\<open>None\<close> and the empty string alike, so two result sets that differ in a field value
  give the same export file, and no reader can give back both values.
\<close>

theorem export_file_same_for_none_and_empty:
  "write_export example_services example_queried example_results =
     write_export example_services example_queried example_results_blank
   \<and> (rows example_results ! 1) ''name'' = Some Null
   \<and> (rows example_results_blank ! 1) ''name'' = Some (Text [])"
proof -
  have t: "csv_text example_results_blank = csv_text example_results"
    by (simp add: csv_text_def export_records_def record_of_def example_results_def
        example_results_blank_def)
  have c: "\<forall>r \<in> set (rows example_results_blank). set (schema example_results_blank) \<subseteq> dom r"
    by (simp add: example_results_blank_def)
  have n: "NamedTemporaryFile example_services example_queried =
     Inr (''/tmp/tmpk3x.csv'',
          example_queried\<lparr>files := (files example_queried)(''/tmp/tmpk3x.csv'' \<mapsto> File [])\<rparr>)"
    using example_NamedTemporaryFile [of "requests_post example_services"] by simp
  have "write_export example_services example_queried example_results =
     (Inr (''/tmp/tmpk3x.csv'', 3),
      example_queried\<lparr>files := (files example_queried)(''/tmp/tmpk3x.csv'' \<mapsto>
         File (csv_text example_results))\<rparr>)"
    using write_export_complete [OF _ example_rows_complete n]
    by (simp add: example_results_def)
  moreover have "write_export example_services example_queried example_results_blank =
     (Inr (''/tmp/tmpk3x.csv'', 3),
      example_queried\<lparr>files := (files example_queried)(''/tmp/tmpk3x.csv'' \<mapsto>
         File (csv_text example_results))\<rparr>)"
    using write_export_complete [OF _ c n]
    by (simp add: example_results_blank_def t [unfolded example_results_blank_def])
  ultimately show ?thesis
    by (simp add: example_results_def example_results_blank_def)
qed

text \<open>
  Claim C3, amended. For every result set whose rows hold a value for every column of the
  schema, \<^verbatim>\<open>export_and_upload\<close> writes the export file, and reading that file with the
  standard reader gives back the column names and, for every row and column, a string
  value exactly as it was, whatever characters it holds (the delimiter, quotes, line
  breaks); \<^verbatim>\<open>None\<close> is read back as the empty string and a value of another type as its
  text.
\<close>

theorem export_file_round_trip:
  assumes "fetch_error results = None"
    and "\<forall>row \<in> set (rows results). set (schema results) \<subseteq> dom row"
    and "NamedTemporaryFile sv w = Inr (temp_path, w1)"
  shows "fst (write_export sv w results) = Inr (temp_path, length (rows results))
       \<and> (\<exists>content.
             open_rb (snd (write_export sv w results)) temp_path = Inr content
             \<and> hd (csv_reader content) = schema results
             \<and> length (csv_reader content) = 1 + length (rows results)
             \<and> (\<forall>i < length (rows results). \<forall>j < length (schema results).
                  (\<forall>s. (rows results ! i) (schema results ! j) = Some (Text s) \<longrightarrow>
                         csv_reader content ! Suc i ! j = s)
                  \<and> ((rows results ! i) (schema results ! j) = Some Null \<longrightarrow>
                         csv_reader content ! Suc i ! j = [])
                  \<and> (\<forall>s. (rows results ! i) (schema results ! j) = Some (Scalar s) \<longrightarrow>
                         csv_reader content ! Suc i ! j = s)))"
proof -
  let ?w = "w1\<lparr>files := (files w1)(temp_path \<mapsto> File (csv_text results))\<rparr>"
  have e: "write_export sv w results = (Inr (temp_path, length (rows results)), ?w)"
    using assms by (rule write_export_complete)
  from write_export_Inr [OF e] have o: "open_rb ?w temp_path = Inr (csv_text results)"
    by (simp add: open_rb_def)
  have r: "csv_reader (csv_text results) =
           schema results # map (record_of (schema results)) (rows results)"
    by (simp add: csv_reader_csv_text export_records_def)
  have "csv_reader (csv_text results) ! Suc i ! j = field_text v"
    if "i < length (rows results)" "j < length (schema results)"
      "(rows results ! i) (schema results ! j) = Some v" for i j v
    using that by (simp add: r record_of_def)
  then have "\<forall>i < length (rows results). \<forall>j < length (schema results).
                  (\<forall>s. (rows results ! i) (schema results ! j) = Some (Text s) \<longrightarrow>
                         csv_reader (csv_text results) ! Suc i ! j = s)
                  \<and> ((rows results ! i) (schema results ! j) = Some Null \<longrightarrow>
                         csv_reader (csv_text results) ! Suc i ! j = [])
                  \<and> (\<forall>s. (rows results ! i) (schema results ! j) = Some (Scalar s) \<longrightarrow>
                         csv_reader (csv_text results) ! Suc i ! j = s)"
    by fastforce
  with e o r show ?thesis
    by (intro conjI exI [of _ "csv_text results"]) simp_all
qed

theorem export_file_round_trip_witness:
  "fst (write_export example_services example_queried example_results) =
     Inr (''/tmp/tmpk3x.csv'', 3)
   \<and> open_rb
       (snd (write_export example_services example_queried example_results))
       ''/tmp/tmpk3x.csv'' = Inr example_csv
   \<and> csv_reader example_csv ! 3 ! 1 = ''Smith, J.''
   \<and> csv_reader example_csv ! 2 ! 1 = []"
proof -
  have f: "fetch_error example_results = None"
    by (simp add: example_results_def)
  have n: "NamedTemporaryFile example_services example_queried =
     Inr (''/tmp/tmpk3x.csv'',
          example_queried\<lparr>files := (files example_queried)(''/tmp/tmpk3x.csv'' \<mapsto> File [])\<rparr>)"
    using example_NamedTemporaryFile [of "requests_post example_services"] by simp
  have l: "2 < length (rows example_results)" "1 < length (rows example_results)"
    "1 < length (schema example_results)"
    by (simp_all add: example_results_def)
  have c: "(rows example_results ! 2) (schema example_results ! 1) = Some (Text ''Smith, J.'')"
    "(rows example_results ! 1) (schema example_results ! 1) = Some Null"
    by (simp_all add: example_results_def)
  have x: "write_export example_services example_queried example_results =
     (Inr (''/tmp/tmpk3x.csv'', 3), example_exported)"
    using example_write_export [of "requests_post example_services"] by simp
  have o: "open_rb example_exported ''/tmp/tmpk3x.csv'' = Inr example_csv"
    by (simp add: open_rb_def example_file example_exported_def example_queried_def
        example_world_def call_def)
  from export_file_round_trip [OF f example_rows_complete n]
  obtain content where
    r: "open_rb
          (snd (write_export example_services example_queried example_results))
          ''/tmp/tmpk3x.csv'' = Inr content"
    and a: "\<forall>i < length (rows example_results). \<forall>j < length (schema example_results).
                  (\<forall>s. (rows example_results ! i) (schema example_results ! j) = Some (Text s) \<longrightarrow>
                         csv_reader content ! Suc i ! j = s)
                  \<and> ((rows example_results ! i) (schema example_results ! j) = Some Null \<longrightarrow>
                         csv_reader content ! Suc i ! j = [])
                  \<and> (\<forall>s. (rows example_results ! i) (schema example_results ! j)
                           = Some (Scalar s) \<longrightarrow> csv_reader content ! Suc i ! j = s)"
    by blast
  from r x o have content: "content = example_csv"
    by simp
  from a l(1,3) c(1) have "csv_reader content ! Suc 2 ! 1 = ''Smith, J.''"
    by blast
  moreover from a l(2,3) c(2) have "csv_reader content ! Suc 1 ! 1 = []"
    by blast
  ultimately show ?thesis
    using x o by (simp add: content numeral_3_eq_3 numeral_2_eq_2)
qed

text \<open>
  Claim C1 does not hold of \<^verbatim>\<open>export_and_upload\<close>. When \<^verbatim>\<open>requests.post\<close> raises, the handler
  answers with status 500 and \<^verbatim>\<open>os.unlink\<close> is never reached: the export file, which did
  not exist before the invocation, is still there after it.
\<close>

theorem export_keeps_temp_file_when_post_raises:
  "fst (export_and_upload (relay_raises (Exn OtherException ''Connection refused''))
          example_world []) =
     (''Error: Connection refused'' @ [LF, LF] @ ''Details: Traceback (most recent call last)'',
      500)
   \<and> files example_world ''/tmp/tmpk3x.csv'' = None
   \<and> files (snd (export_and_upload (relay_raises (Exn OtherException ''Connection refused''))
          example_world [])) ''/tmp/tmpk3x.csv'' = Some (File example_csv)"
proof -
  have p: "requests_post (example_services\<lparr>requests_post := \<lambda>url name content mime. Inl e\<rparr>)
      CLOUD_RUN_URL (basename ''/tmp/tmpk3x.csv'') example_csv ''text/csv'' = Inl e" for e
    by simp
  have f: "format_exc example_services e = ''Traceback (most recent call last)''" for e
    by (simp add: example_services_def)
  have w: "files example_world ''/tmp/tmpk3x.csv'' = None"
    by (simp add: example_world_def)
  show ?thesis
    using relay_exception_keeps_file [OF example_run_query example_write_export example_file p,
        of _ "[]"] w
    by (simp add: relay_raises_def f files_call example_file)
qed

section \<open>\<^verbatim>\<open>process_csv_upload\<close> removes the file that it creates\<close>

text \<open>The other entry point removes its temporary file in its handler too: when the path
  names nothing before the call, the call returns a result and the path names nothing
  after it, whatever the services do.\<close>

lemma save_payload_created:
  assumes "files w p = None" and "save_payload sv w p data = (res, w1)"
  shows "w1 = w \<or> \<not> access_denied w1 p \<and> (\<exists>b. files w1 p = Some (File b))
           \<and> unremovable w1 p = None"
proof (cases "open_wb sv w p")
  case (Inl e)
  with assms(2) show ?thesis
    by (cases data) (simp_all add: save_payload_def)
next
  case (Inr wo)
  with assms(1) have o: "wo = create w p" "\<not> access_denied w p"
    by (auto simp: open_wb_def split: if_splits option.splits)
  from assms(2) Inr have "w1 = wo \<or> (\<exists>b. w1 = wo\<lparr>files := (files wo)(p \<mapsto> File b)\<rparr>)"
    by (cases data)
       (auto simp: save_payload_def file_write_def split: sum.splits option.splits)
  with o show ?thesis
    by (auto simp: create_def)
qed

lemma removable_removed:
  assumes "\<not> access_denied w p" and "files w p = Some (File b)" and "unremovable w p = None"
  shows "remove_if_exists w p = Inr (w\<lparr>files := (files w)(p := None)\<rparr>)"
  using assms by (simp add: remove_if_exists_def os_path_exists_def os_remove_def)

lemma process_csv_upload_removes_created_file:
  assumes "files w (''/tmp/'' @ filename) = None"
  shows "files (snd (process_csv_upload sv w data filename project_id)) (''/tmp/'' @ filename)
           = None
       \<and> (\<exists>result. fst (process_csv_upload sv w data filename project_id) = Inr result)"
proof -
  let ?p = "''/tmp/'' @ filename"
  obtain res w1 where b: "process_body sv w data filename project_id = (res, w1)"
    by (cases "process_body sv w data filename project_id")
  show ?thesis
  proof (cases res)
    case (Inr r)
    with b show ?thesis
      using process_body_Inr [of sv w data filename project_id r w1]
      by (simp add: process_csv_upload_def)
  next
    case (Inl e)
    let ?wl = "logging w1 ERROR (''Error processing upload: '' @ str_exn e)"
    obtain sres ws where s: "save_payload sv w ?p data = (sres, ws)"
      by (cases "save_payload sv w ?p data")
    obtain success w2 where u: "upload_to_sftp sv ws ?p filename project_id = (success, w2)"
      by (cases "upload_to_sftp sv ws ?p filename project_id")
    then have f: "files w2 = files ws" "access_denied w2 = access_denied ws"
      "unremovable w2 = unremovable ws"
      using files_upload_to_sftp [of sv ws ?p filename project_id]
        access_denied_upload_to_sftp [of sv ws ?p filename project_id]
        unremovable_upload_to_sftp [of sv ws ?p filename project_id] by simp_all
    from b Inl s u have "w1 = ws \<or> w1 = w2"
      by (auto simp: process_body_def Let_def split: sum.splits if_splits)
    with f save_payload_created [OF assms s]
    have c: "files w1 ?p = None \<or> \<not> access_denied w1 ?p \<and> (\<exists>b. files w1 ?p = Some (File b))
           \<and> unremovable w1 ?p = None"
      using assms by auto
    then show ?thesis
    proof
      assume "files w1 ?p = None"
      then have "remove_if_exists ?wl ?p = Inr ?wl" "files ?wl ?p = None"
        by (simp_all add: remove_if_exists_def os_path_exists_def files_logging)
      with b Inl show ?thesis
        by (simp add: process_csv_upload_def Let_def)
    next
      assume "\<not> access_denied w1 ?p \<and> (\<exists>b. files w1 ?p = Some (File b))
           \<and> unremovable w1 ?p = None"
      then obtain c where "\<not> access_denied ?wl ?p" "files ?wl ?p = Some (File c)"
        "unremovable ?wl ?p = None"
        by (auto simp: files_logging access_denied_logging unremovable_logging)
      then have "remove_if_exists ?wl ?p = Inr (?wl\<lparr>files := (files ?wl)(?p := None)\<rparr>)"
        by (rule removable_removed)
      with b Inl show ?thesis
        by (simp add: process_csv_upload_def Let_def)
    qed
  qed
qed

end
